theory Spec2Isabelle
  imports Complex_Main "HOL-Library.Multiset"
begin

section \<open>Numbers and points\<close>

text \<open>
  The program is \<^verbatim>\<open>src/src/App.js\<close>. Its numbers are JavaScript numbers, that is
  IEEE 754 doubles: every arithmetic operation rounds its exact result to the nearest
  double, and yields an infinity or \<^verbatim>\<open>NaN\<close> where a result is too large or undefined.

  The function \<^verbatim>\<open>correlation\<close> of lines 14 to 30 is modelled over an explicit
  arithmetic: \<open>correlation_with ieee\<close> is the function as the program runs it, in
  doubles, and \<open>correlation_with exact\<close> is the same function when no operation
  rounds. \<open>correlation\<close> is the function in exact arithmetic written directly over
  the reals; there a division by zero or a square root of a negative number is recorded
  as a \<open>fault\<close>. Lemma \<open>correlation_exact_link\<close> shows that \<open>correlation\<close> and
  \<open>correlation_with exact\<close> return the same number.

  The generators, the drag update and the controller are modelled over the reals.
\<close>

datatype fault = DivideByZero | SqrtOfNegative

definition js_div :: "real \<Rightarrow> real \<Rightarrow> fault + real" where
  "js_div a b = (if b = 0 then Inl DivideByZero else Inr (a / b))"

definition js_sqrt :: "real \<Rightarrow> fault + real" where
  "js_sqrt a = (if a < 0 then Inl SqrtOfNegative else Inr (sqrt a))"

text \<open>
  A point is the object \<^verbatim>\<open>{ id, x, y }\<close>. The double arithmetic reads a coordinate
  through its rounding, so a coordinate that is not a double stands for the nearest
  double, as a decimal literal of the source does.
\<close>

record point =
  p_id :: string
  p_x :: real
  p_y :: real

section \<open>Pearson correlation\<close>

text \<open>
  \<^verbatim>\<open>correlation(points)\<close>, lines 14 to 30, in exact arithmetic: the early return for
  fewer than two points, the two \<^verbatim>\<open>reduce\<close> calls for the means, the \<^verbatim>\<open>for\<close> loop
  over the three accumulators, and the guarded division.
\<close>

definition corr_step :: "real \<Rightarrow> real \<Rightarrow> point \<Rightarrow> real \<times> real \<times> real \<Rightarrow> real \<times> real \<times> real" where
  "corr_step meanX meanY p acc =
     (case acc of (num, denomX, denomY) \<Rightarrow>
        (let dx = p_x p - meanX; dy = p_y p - meanY
         in (num + dx * dy, denomX + dx * dx, denomY + dy * dy)))"

definition correlation :: "point list \<Rightarrow> fault + real" where
  "correlation points =
     (if length points < 2 then Inr 0
      else
        (let n = real (length points) in
         case js_div (foldl (\<lambda>a p. a + p_x p) 0 points) n of
           Inl e \<Rightarrow> Inl e
         | Inr meanX \<Rightarrow>
             (case js_div (foldl (\<lambda>a p. a + p_y p) 0 points) n of
                Inl e \<Rightarrow> Inl e
              | Inr meanY \<Rightarrow>
                  (case fold (corr_step meanX meanY) points (0, 0, 0) of
                     (num, denomX, denomY) \<Rightarrow>
                       if denomX * denomY = 0 then Inr 0
                       else
                         (case js_sqrt (denomX * denomY) of
                            Inl e \<Rightarrow> Inl e
                          | Inr s \<Rightarrow> js_div num s)))))"

section \<open>JavaScript numbers\<close>

text \<open>
  A JavaScript number is a finite double, an infinity or \<^verbatim>\<open>NaN\<close>. \<open>Fin x\<close> is the
  finite double of value \<open>x\<close>. The sign of zero is not kept: \<^verbatim>\<open>correlation\<close> never
  divides by zero, and no comparison in it tells the two zeros apart.
\<close>

datatype f64 = Fin real | PInf | NInf | NaN

text \<open>
  An arithmetic says how the exact result of an operation on finite numbers becomes a
  number: \<open>rnd\<close> for a sum, difference, product, quotient or literal, and \<open>rnd_sqrt\<close>
  for the square root of a positive number.
\<close>

record arith =
  rnd :: "real \<Rightarrow> f64"
  rnd_sqrt :: "real \<Rightarrow> f64"

text \<open>
  The operations \<^verbatim>\<open>+\<close>, \<^verbatim>\<open>-\<close>, \<^verbatim>\<open>*\<close>, \<^verbatim>\<open>/\<close> and \<^verbatim>\<open>Math.sqrt\<close>, with the results IEEE 754
  gives on infinities, on \<^verbatim>\<open>NaN\<close> and on a zero divisor.
\<close>

definition negative :: "f64 \<Rightarrow> bool" where
  "negative a = (case a of Fin x \<Rightarrow> x < 0 | NInf \<Rightarrow> True | _ \<Rightarrow> False)"

definition inf_signed :: "bool \<Rightarrow> f64" where
  "inf_signed neg = (if neg then NInf else PInf)"

definition neg_f64 :: "f64 \<Rightarrow> f64" where
  "neg_f64 a = (case a of Fin x \<Rightarrow> Fin (- x) | PInf \<Rightarrow> NInf | NInf \<Rightarrow> PInf | NaN \<Rightarrow> NaN)"

definition add_with :: "arith \<Rightarrow> f64 \<Rightarrow> f64 \<Rightarrow> f64" where
  "add_with ar a b =
     (case (a, b) of
        (Fin x, Fin y) \<Rightarrow> rnd ar (x + y)
      | (NaN, _) \<Rightarrow> NaN
      | (_, NaN) \<Rightarrow> NaN
      | (PInf, NInf) \<Rightarrow> NaN
      | (NInf, PInf) \<Rightarrow> NaN
      | (Fin x, c) \<Rightarrow> c
      | (c, _) \<Rightarrow> c)"

definition sub_with :: "arith \<Rightarrow> f64 \<Rightarrow> f64 \<Rightarrow> f64" where
  "sub_with ar a b = add_with ar a (neg_f64 b)"

definition mul_with :: "arith \<Rightarrow> f64 \<Rightarrow> f64 \<Rightarrow> f64" where
  "mul_with ar a b =
     (case (a, b) of
        (Fin x, Fin y) \<Rightarrow> rnd ar (x * y)
      | _ \<Rightarrow>
          if a = NaN \<or> b = NaN \<or> a = Fin 0 \<or> b = Fin 0 then NaN
          else inf_signed (negative a \<noteq> negative b))"

definition div_with :: "arith \<Rightarrow> f64 \<Rightarrow> f64 \<Rightarrow> f64" where
  "div_with ar a b =
     (case (a, b) of
        (Fin x, Fin y) \<Rightarrow>
          if y = 0 then (if x = 0 then NaN else inf_signed (x < 0))
          else rnd ar (x / y)
      | (NaN, _) \<Rightarrow> NaN
      | (_, NaN) \<Rightarrow> NaN
      | (Fin x, _) \<Rightarrow> Fin 0
      | (_, Fin y) \<Rightarrow> inf_signed (negative a \<noteq> negative b)
      | _ \<Rightarrow> NaN)"

definition sqrt_with :: "arith \<Rightarrow> f64 \<Rightarrow> f64" where
  "sqrt_with ar a =
     (case a of
        Fin x \<Rightarrow> if x < 0 then NaN else if x = 0 then Fin 0 else rnd_sqrt ar x
      | PInf \<Rightarrow> PInf
      | _ \<Rightarrow> NaN)"

text \<open>
  Rounding to the nearest double, ties to the even significand. A double has a 53-bit
  significand and a quantum of at least \<open>2 ^ -1074\<close>; a result that rounds to
  \<open>2 ^ 1024\<close> or more is an infinity. \<open>ilog2 a\<close> is the exponent of the power of two
  at or below \<open>a\<close>, found by binary search; outside the range of the doubles it is
  only a bound, which is all the rounding needs there.
\<close>

definition pow2 :: "int \<Rightarrow> real" where
  "pow2 e = (if 0 \<le> e then 2 ^ nat e else 1 / 2 ^ nat (- e))"

definition rne :: "real \<Rightarrow> int" where
  "rne x =
     (let f = \<lfloor>x\<rfloor>; d = x - of_int f
      in if d < 1 / 2 then f
         else if 1 / 2 < d then f + 1
         else if even f then f else f + 1)"

definition ilog2 :: "real \<Rightarrow> int" where
  "ilog2 a =
     snd (fold (\<lambda>k (t, e).
                  if 1 \<le> a then (if 2 ^ k \<le> t then (t / 2 ^ k, e + int k) else (t, e))
                  else (if t * 2 ^ k < 2 then (t * 2 ^ k, e - int k) else (t, e)))
            [1024, 512, 256, 128, 64, 32, 16, 8, 4, 2, 1] (a, 0))"

definition round_f64 :: "real \<Rightarrow> f64" where
  "round_f64 x =
     (if x = 0 then Fin 0
      else
        (let a = \<bar>x\<bar>;
             q = max (ilog2 a - 52) (- 1074);
             r = of_int (rne (a / pow2 q)) * pow2 q
         in if 2 ^ 1024 \<le> r then inf_signed (x < 0)
            else Fin (if 0 < x then r else - r)))"

text \<open>
  The rounded square root of a positive number: the integer part of the root of the
  scaled argument, bit by bit, then the comparison with the midpoint.
\<close>

primrec sqrt_bits :: "nat \<Rightarrow> real \<Rightarrow> real \<Rightarrow> real" where
  "sqrt_bits 0 y r = r"
| "sqrt_bits (Suc k) y r =
     sqrt_bits k y (if (r + 2 ^ k) * (r + 2 ^ k) \<le> y then r + 2 ^ k else r)"

definition sqrt_floor :: "real \<Rightarrow> real" where
  "sqrt_floor y = sqrt_bits 53 y 0"

definition sqrt_f64 :: "real \<Rightarrow> f64" where
  "sqrt_f64 x =
     (let q = ilog2 x div 2 - 52;
          y = x / pow2 (2 * q);
          m = sqrt_floor y;
          h = (m + 1 / 2) * (m + 1 / 2);
          m' = (if y < h then m else if h < y then m + 1
                else if even \<lfloor>m\<rfloor> then m else m + 1)
      in Fin (m' * pow2 q))"

text \<open>The arithmetic without rounding, and the arithmetic of the doubles.\<close>

definition exact :: arith where
  "exact = \<lparr>rnd = Fin, rnd_sqrt = (\<lambda>x. Fin (sqrt x))\<rparr>"

definition ieee :: arith where
  "ieee = \<lparr>rnd = round_f64, rnd_sqrt = sqrt_f64\<rparr>"

text \<open>
  \<^verbatim>\<open>correlation(points)\<close>, lines 14 to 30, over an arithmetic. The length of an array
  is an integer below \<open>2 ^ 32\<close>, hence a double. The test \<^verbatim>\<open>=== 0\<close> is true of zero
  only, not of \<^verbatim>\<open>NaN\<close>.
\<close>

definition corr_step_with ::
    "arith \<Rightarrow> f64 \<Rightarrow> f64 \<Rightarrow> point \<Rightarrow> f64 \<times> f64 \<times> f64 \<Rightarrow> f64 \<times> f64 \<times> f64" where
  "corr_step_with ar meanX meanY p acc =
     (case acc of (num, denomX, denomY) \<Rightarrow>
        (let dx = sub_with ar (rnd ar (p_x p)) meanX;
             dy = sub_with ar (rnd ar (p_y p)) meanY
         in (add_with ar num (mul_with ar dx dy),
             add_with ar denomX (mul_with ar dx dx),
             add_with ar denomY (mul_with ar dy dy))))"

definition correlation_with :: "arith \<Rightarrow> point list \<Rightarrow> f64" where
  "correlation_with ar points =
     (if length points < 2 then Fin 0
      else
        (let n = Fin (real (length points));
             meanX = div_with ar (foldl (\<lambda>a p. add_with ar a (rnd ar (p_x p))) (Fin 0) points) n;
             meanY = div_with ar (foldl (\<lambda>a p. add_with ar a (rnd ar (p_y p))) (Fin 0) points) n
         in case fold (corr_step_with ar meanX meanY) points (Fin 0, Fin 0, Fin 0) of
              (num, denomX, denomY) \<Rightarrow>
                if mul_with ar denomX denomY = Fin 0 then Fin 0
                else div_with ar num (sqrt_with ar (mul_with ar denomX denomY))))"

text \<open>
  The coefficient as the specification words it: the arithmetic means, the sum of the
  products of the deviations, and the two sums of squared deviations.
\<close>

definition meanX :: "point list \<Rightarrow> real" where
  "meanX ps = sum_list (map p_x ps) / real (length ps)"

definition meanY :: "point list \<Rightarrow> real" where
  "meanY ps = sum_list (map p_y ps) / real (length ps)"

definition sum_dxdy :: "point list \<Rightarrow> real" where
  "sum_dxdy ps = (\<Sum>p\<leftarrow>ps. (p_x p - meanX ps) * (p_y p - meanY ps))"

definition sum_dx2 :: "point list \<Rightarrow> real" where
  "sum_dx2 ps = (\<Sum>p\<leftarrow>ps. (p_x p - meanX ps) * (p_x p - meanX ps))"

definition sum_dy2 :: "point list \<Rightarrow> real" where
  "sum_dy2 ps = (\<Sum>p\<leftarrow>ps. (p_y p - meanY ps) * (p_y p - meanY ps))"

definition pearson :: "point list \<Rightarrow> real" where
  "pearson ps = sum_dxdy ps / sqrt (sum_dx2 ps * sum_dy2 ps)"

section \<open>Identifiers\<close>

text \<open>
  The ids are built by template literals from numbers: \<^verbatim>\<open>`${Date.now()}-${i}`\<close> and
  \<^verbatim>\<open>`${k}-${i}`\<close>. A natural number is rendered in decimal, without leading zeros.
\<close>

definition digit :: "nat \<Rightarrow> char" where
  "digit d = ''0123456789'' ! d"

function dec :: "nat \<Rightarrow> string" where
  "dec n = (if n < 10 then [digit n] else dec (n div 10) @ [digit (n mod 10)])"
  by pat_completeness auto
termination
  by (relation "measure (\<lambda>n. n)") auto

declare dec.simps [simp del]

section \<open>Generated datasets\<close>

text \<open>
  \<^verbatim>\<open>randomLinear(slope, noise)\<close>, lines 33 to 38. The callback of \<^verbatim>\<open>Array.from\<close> runs for
  the indices 0 to 19 and reads two things from outside: \<^verbatim>\<open>Math.random()\<close>, a number in
  the interval from 0 (included) to 1 (excluded), and \<^verbatim>\<open>Date.now()\<close>, the clock in
  milliseconds. Both are inputs of the model: \<open>random i\<close> and \<open>now i\<close> are the values
  the callback reads at index \<open>i\<close>. The callers always pass both arguments, so the
  default parameters are never used.
\<close>

definition randomLinear :: "real \<Rightarrow> real \<Rightarrow> (nat \<Rightarrow> nat) \<Rightarrow> (nat \<Rightarrow> real) \<Rightarrow> point list" where
  "randomLinear slope noise now random =
     map (\<lambda>i. let x = real i + 1;
                   y = slope * x + (random i - 0.5) * noise * 10 + 10
               in \<lparr>p_id = dec (now i) @ ''-'' @ dec i, p_x = x, p_y = y\<rparr>)
         [0..<20]"

text \<open>\<^verbatim>\<open>randomLinearWithCorrelation(r, sign)\<close>, lines 41 to 48.\<close>

definition randomLinearWithCorrelation ::
    "real \<Rightarrow> real \<Rightarrow> (nat \<Rightarrow> nat) \<Rightarrow> (nat \<Rightarrow> real) \<Rightarrow> point list" where
  "randomLinearWithCorrelation r sign now random =
     (let slope = sign * r;
          noise = 1.5 - r * 1.5 + 0.2
      in randomLinear slope noise now random)"

section \<open>The Anscombe quartet\<close>

text \<open>
  The object \<^verbatim>\<open>anscombe\<close>, lines 51 to 68, as an association list from its keys to the
  coordinate pairs, and the loop of lines 69 to 71 that adds the id \<^verbatim>\<open>`${k}-${i}`\<close> to the
  point at index \<open>i\<close> of the dataset under key \<open>k\<close>.
\<close>

definition anscombe_literal :: "(string \<times> (real \<times> real) list) list" where
  "anscombe_literal =
     [(''A'', [(10, 8.04), (8, 6.95), (13, 7.58), (9, 8.81), (11, 8.33),
               (14, 9.96), (6, 7.24), (4, 4.26), (12, 10.84), (7, 4.82), (5, 5.68)]),
      (''B'', [(10, 9.14), (8, 8.14), (13, 8.74), (9, 8.77), (11, 9.26),
               (14, 8.1), (6, 6.13), (4, 3.1), (12, 9.13), (7, 7.26), (5, 4.74)]),
      (''C'', [(10, 7.46), (8, 6.77), (13, 12.74), (9, 7.11), (11, 7.81),
               (14, 8.84), (6, 6.08), (4, 5.39), (12, 8.15), (7, 6.42), (5, 5.73)]),
      (''D'', [(8, 6.58), (8, 5.76), (8, 7.71), (8, 8.84), (8, 8.47),
               (8, 7.04), (8, 5.25), (19, 12.5), (8, 5.56), (8, 7.91), (8, 6.89)])]"

definition stamp :: "string \<Rightarrow> (real \<times> real) list \<Rightarrow> point list" where
  "stamp k ps =
     map (\<lambda>(i, (a, b)). \<lparr>p_id = k @ ''-'' @ dec i, p_x = a, p_y = b\<rparr>) (enumerate 0 ps)"

definition anscombe :: "(string \<times> point list) list" where
  "anscombe = map (\<lambda>(k, ps). (k, stamp k ps)) anscombe_literal"

section \<open>Dragging a point\<close>

text \<open>
  The state update of \<^verbatim>\<open>handleMove\<close>, line 100:
  \<^verbatim>\<open>pts.map((p) => (p.id === payload.id ? { ...p, x: xVal, y: yVal } : p))\<close>.
  It builds a new array and new objects, so the arrays held by \<^verbatim>\<open>anscombe\<close> are never
  written to.
\<close>

definition dragPoint :: "string \<Rightarrow> real \<Rightarrow> real \<Rightarrow> point list \<Rightarrow> point list" where
  "dragPoint payload_id xVal yVal pts =
     map (\<lambda>p. if p_id p = payload_id then p\<lparr>p_x := xVal, p_y := yVal\<rparr> else p) pts"

section \<open>The controller\<close>

text \<open>
  The component \<^verbatim>\<open>App\<close> holds three pieces of state (lines 125 to 127). The points are
  \<open>None\<close> when the lookup in \<^verbatim>\<open>anscombe\<close> yields \<^verbatim>\<open>undefined\<close>.
\<close>

record app_state =
  correlationValue :: real
  presetKey :: string
  points :: "point list option"

definition PRESET_KEYS :: "string list" where
  "PRESET_KEYS =
     [''Lineare positiva'', ''Lineare negativa'', ''Nessuna correlazione'',
      ''Anscombe A'', ''Anscombe B'', ''Anscombe C'', ''Anscombe D'']"

definition isLinear :: "string \<Rightarrow> bool" where
  "isLinear key \<longleftrightarrow>
     key = ''Lineare positiva'' \<or> key = ''Lineare negativa'' \<or> key = ''Nessuna correlazione''"

text \<open>\<^verbatim>\<open>s.split(" ")\<close> and the read of an index that may be out of range.\<close>

fun split_on :: "char \<Rightarrow> string \<Rightarrow> string list" where
  "split_on c [] = [[]]"
| "split_on c (a # s) =
     (if a = c then [] # split_on c s
      else (case split_on c s of
              w # ws \<Rightarrow> (a # w) # ws
            | [] \<Rightarrow> [[a]]))"

definition nth_opt :: "'a list \<Rightarrow> nat \<Rightarrow> 'a option" where
  "nth_opt xs i = (if i < length xs then Some (xs ! i) else None)"

definition anscombe_lookup :: "string \<Rightarrow> point list option" where
  "anscombe_lookup key =
     (case nth_opt (split_on CHR '' '' key) 1 of
        None \<Rightarrow> None
      | Some k \<Rightarrow> map_of anscombe k)"

text \<open>The body of the effect, lines 136 to 144, as the value passed to \<^verbatim>\<open>setPoints\<close>.\<close>

definition effect_points ::
    "string \<Rightarrow> real \<Rightarrow> (nat \<Rightarrow> nat) \<Rightarrow> (nat \<Rightarrow> real) \<Rightarrow> point list option" where
  "effect_points key cv now random =
     (if isLinear key then
        (let r = cv;
             sign = 1;
             sign = (if key = ''Lineare negativa'' then - 1 else sign);
             r = (if key = ''Nessuna correlazione'' then 0 else r)
         in Some (randomLinearWithCorrelation r sign now random))
      else anscombe_lookup key)"

text \<open>The body of \<^verbatim>\<open>regenerate\<close>, lines 149 to 157.\<close>

definition regenerate_points ::
    "string \<Rightarrow> real \<Rightarrow> (nat \<Rightarrow> nat) \<Rightarrow> (nat \<Rightarrow> real) \<Rightarrow> point list option" where
  "regenerate_points key cv now random =
     (if isLinear key then
        (let r = cv;
             sign = 1;
             sign = (if key = ''Lineare negativa'' then - 1 else sign);
             r = (if key = ''Nessuna correlazione'' then 0 else r)
         in Some (randomLinearWithCorrelation r sign now random))
      else anscombe_lookup key)"

text \<open>
  The initial state of lines 125 to 127, and the effect's first run after the first
  render.
\<close>

definition init_state :: "(nat \<Rightarrow> nat) \<Rightarrow> (nat \<Rightarrow> real) \<Rightarrow> app_state" where
  "init_state now random =
     \<lparr>correlationValue = 0.8, presetKey = ''Lineare positiva'',
      points = Some (randomLinearWithCorrelation 0.8 1 now random)\<rparr>"

definition mount :: "(nat \<Rightarrow> nat) \<Rightarrow> (nat \<Rightarrow> real) \<Rightarrow> app_state \<Rightarrow> app_state" where
  "mount now random s =
     s\<lparr>points := effect_points (presetKey s) (correlationValue s) now random\<rparr>"

text \<open>
  The handlers. The effect of lines 135 to 146 runs after a render in which
  \<^verbatim>\<open>presetKey\<close> or \<^verbatim>\<open>correlationValue\<close> differs from the previous render; setting either
  to the value it already has changes nothing. Each handler that generates data takes
  the clock and the random source it will read.
\<close>

definition setPresetKey ::
    "string \<Rightarrow> (nat \<Rightarrow> nat) \<Rightarrow> (nat \<Rightarrow> real) \<Rightarrow> app_state \<Rightarrow> app_state" where
  "setPresetKey key now random s =
     (if key = presetKey s then s
      else s\<lparr>presetKey := key,
             points := effect_points key (correlationValue s) now random\<rparr>)"

definition setCorrelationValue ::
    "real \<Rightarrow> (nat \<Rightarrow> nat) \<Rightarrow> (nat \<Rightarrow> real) \<Rightarrow> app_state \<Rightarrow> app_state" where
  "setCorrelationValue v now random s =
     (if v = correlationValue s then s
      else s\<lparr>correlationValue := v,
             points := effect_points (presetKey s) v now random\<rparr>)"

definition regenerate :: "(nat \<Rightarrow> nat) \<Rightarrow> (nat \<Rightarrow> real) \<Rightarrow> app_state \<Rightarrow> app_state" where
  "regenerate now random s =
     s\<lparr>points := regenerate_points (presetKey s) (correlationValue s) now random\<rparr>"

definition setPoints_drag :: "string \<Rightarrow> real \<Rightarrow> real \<Rightarrow> app_state \<Rightarrow> app_state" where
  "setPoints_drag payload_id xVal yVal s =
     s\<lparr>points := map_option (dragPoint payload_id xVal yVal) (points s)\<rparr>"

datatype event =
    SelectPreset string "nat \<Rightarrow> nat" "nat \<Rightarrow> real"
  | SetCorrelationTarget real "nat \<Rightarrow> nat" "nat \<Rightarrow> real"
  | RequestRegenerate "nat \<Rightarrow> nat" "nat \<Rightarrow> real"
  | DragPoint string real real

fun handle :: "app_state \<Rightarrow> event \<Rightarrow> app_state" where
  "handle s (SelectPreset key now random) = setPresetKey key now random s"
| "handle s (SetCorrelationTarget v now random) = setCorrelationValue v now random s"
| "handle s (RequestRegenerate now random) = regenerate now random s"
| "handle s (DragPoint payload_id xVal yVal) = setPoints_drag payload_id xVal yVal s"

definition run :: "app_state \<Rightarrow> event list \<Rightarrow> app_state" where
  "run s evs = foldl handle s evs"

fun sets_target :: "event \<Rightarrow> bool" where
  "sets_target (SetCorrelationTarget v now random) = True"
| "sets_target e = False"

section \<open>Auxiliary definitions\<close>

text \<open>The value of a decimal string, to show that \<open>dec\<close> loses nothing.\<close>

definition digit_val :: "char \<Rightarrow> nat" where
  "digit_val c = of_char c - 48"

definition dec_val :: "string \<Rightarrow> nat" where
  "dec_val s = foldl (\<lambda>a c. 10 * a + digit_val c) 0 s"

text \<open>
  Concrete inputs for the examples: a clock that shows the same millisecond at every
  read, one that shows the next millisecond, and two random sources.
\<close>

definition frozen_clock :: "nat \<Rightarrow> nat" where
  "frozen_clock i = 1700000000000"

definition later_clock :: "nat \<Rightarrow> nat" where
  "later_clock i = 1700000000001"

definition draws_low :: "nat \<Rightarrow> real" where
  "draws_low i = 1 / 4"

definition draws_high :: "nat \<Rightarrow> real" where
  "draws_high i = 3 / 4"

text \<open>
  Datasets for the examples in double arithmetic: three points of which two coincide
  next to the first; two points \<open>2 ^ -269\<close> apart; three points with small integer
  coordinates; three copies of one point; three points with the same y; two points with
  the same y, \<open>10 ^ 200\<close> apart.
\<close>

definition near_points :: "point list" where
  "near_points =
     [\<lparr>p_id = ''a'', p_x = 1, p_y = 4\<rparr>,
      \<lparr>p_id = ''b'', p_x = 1 + 1 / 2 ^ 50, p_y = 4 + 1 / 2 ^ 50\<rparr>,
      \<lparr>p_id = ''c'', p_x = 1 + 1 / 2 ^ 50, p_y = 4 + 1 / 2 ^ 50\<rparr>]"

definition tiny_points :: "point list" where
  "tiny_points =
     [\<lparr>p_id = ''a'', p_x = 0, p_y = 0\<rparr>,
      \<lparr>p_id = ''b'', p_x = 1 / 2 ^ 269, p_y = 1 / 2 ^ 269\<rparr>]"

definition ints_points :: "point list" where
  "ints_points =
     [\<lparr>p_id = ''a'', p_x = 4, p_y = 7\<rparr>,
      \<lparr>p_id = ''b'', p_x = 1, p_y = 4\<rparr>,
      \<lparr>p_id = ''c'', p_x = 17, p_y = 20\<rparr>]"

definition same_points :: "point list" where
  "same_points =
     [\<lparr>p_id = ''a'', p_x = 0.1, p_y = 0.1\<rparr>,
      \<lparr>p_id = ''b'', p_x = 0.1, p_y = 0.1\<rparr>,
      \<lparr>p_id = ''c'', p_x = 0.1, p_y = 0.1\<rparr>]"

definition flat_points :: "point list" where
  "flat_points =
     [\<lparr>p_id = ''a'', p_x = 1, p_y = 0.1\<rparr>,
      \<lparr>p_id = ''b'', p_x = 2, p_y = 0.1\<rparr>,
      \<lparr>p_id = ''c'', p_x = 4, p_y = 0.1\<rparr>]"

definition huge_points :: "point list" where
  "huge_points =
     [\<lparr>p_id = ''a'', p_x = 0, p_y = 5\<rparr>,
      \<lparr>p_id = ''b'', p_x = 10 ^ 200, p_y = 5\<rparr>]"

section \<open>The loops as sums\<close>

lemma foldl_add_sum_list:
  "foldl (\<lambda>a p. a + f p) a0 ps = a0 + sum_list (map f ps)"
  for f :: "point \<Rightarrow> real"
  by (induction ps arbitrary: a0) simp_all

lemma fold_corr_step:
  "fold (corr_step mx my) ps (n0, a0, b0) =
     (n0 + (\<Sum>p\<leftarrow>ps. (p_x p - mx) * (p_y p - my)),
      a0 + (\<Sum>p\<leftarrow>ps. (p_x p - mx) * (p_x p - mx)),
      b0 + (\<Sum>p\<leftarrow>ps. (p_y p - my) * (p_y p - my)))"
  by (induction ps arbitrary: n0 a0 b0) (simp_all add: corr_step_def Let_def)

lemma sum_dx2_nonneg: "0 \<le> sum_dx2 ps"
  unfolding sum_dx2_def by (rule sum_list_nonneg) auto

lemma sum_dy2_nonneg: "0 \<le> sum_dy2 ps"
  unfolding sum_dy2_def by (rule sum_list_nonneg) auto

lemma correlation_unfold:
  "correlation ps =
     (if length ps < 2 \<or> sum_dx2 ps * sum_dy2 ps = 0 then Inr 0
      else Inr (sum_dxdy ps / sqrt (sum_dx2 ps * sum_dy2 ps)))"
proof (cases "length ps < 2")
  case True
  then show ?thesis by (simp add: correlation_def)
next
  case False
  then have n: "real (length ps) \<noteq> 0" by (cases ps) simp_all
  have nonneg: "0 \<le> sum_dx2 ps * sum_dy2 ps"
    using sum_dx2_nonneg sum_dy2_nonneg by simp
  have loop: "fold (corr_step (meanX ps) (meanY ps)) ps (0, 0, 0) =
      (sum_dxdy ps, sum_dx2 ps, sum_dy2 ps)"
    by (simp add: fold_corr_step sum_dxdy_def sum_dx2_def sum_dy2_def)
  show ?thesis
  proof (cases "sum_dx2 ps * sum_dy2 ps = 0")
    case True
    with False n loop show ?thesis
      by (simp add: correlation_def js_div_def foldl_add_sum_list Let_def
          meanX_def [symmetric] meanY_def [symmetric])
  next
    case nz: False
    with nonneg have pos: "0 < sum_dx2 ps * sum_dy2 ps" by (metis less_eq_real_def)
    from nz have "sqrt (sum_dx2 ps * sum_dy2 ps) \<noteq> 0" by simp
    with False n loop nz pos show ?thesis
      by (simp add: correlation_def js_div_def js_sqrt_def foldl_add_sum_list Let_def
          meanX_def [symmetric] meanY_def [symmetric])
  qed
qed

section \<open>Properties of the correlation\<close>

lemma sum_list_map_mset_cong:
  "mset ps = mset qs \<Longrightarrow> sum_list (map f ps) = sum_list (map f qs)"
  for f :: "point \<Rightarrow> real"
  by (metis mset_map sum_mset_sum_list)

lemma sum_dx2_zero_iff: "sum_dx2 ps = 0 \<longleftrightarrow> (\<forall>p\<in>set ps. p_x p = meanX ps)"
  unfolding sum_dx2_def by (subst sum_list_nonneg_eq_0_iff) auto

lemma sum_dy2_zero_iff: "sum_dy2 ps = 0 \<longleftrightarrow> (\<forall>p\<in>set ps. p_y p = meanY ps)"
  unfolding sum_dy2_def by (subst sum_list_nonneg_eq_0_iff) auto

lemma sum_list_const:
  "\<forall>p\<in>set ps. f p = c \<Longrightarrow> sum_list (map f ps) = real (length ps) * c"
  for f :: "point \<Rightarrow> real"
  by (induction ps) (simp_all add: algebra_simps)

lemma same_x_sum_dx2: "\<forall>p\<in>set ps. p_x p = c \<Longrightarrow> sum_dx2 ps = 0"
proof (cases ps)
  case Nil
  then show ?thesis by (simp add: sum_dx2_def)
next
  case (Cons a as)
  assume h: "\<forall>p\<in>set ps. p_x p = c"
  from Cons have n: "real (length ps) \<noteq> 0" by simp
  from h have "sum_list (map p_x ps) = real (length ps) * c" by (rule sum_list_const)
  with n have "meanX ps = c" by (simp add: meanX_def)
  with h show ?thesis by (simp add: sum_dx2_zero_iff)
qed

lemma same_y_sum_dy2: "\<forall>p\<in>set ps. p_y p = c \<Longrightarrow> sum_dy2 ps = 0"
proof (cases ps)
  case Nil
  then show ?thesis by (simp add: sum_dy2_def)
next
  case (Cons a as)
  assume h: "\<forall>p\<in>set ps. p_y p = c"
  from Cons have n: "real (length ps) \<noteq> 0" by simp
  from h have "sum_list (map p_y ps) = real (length ps) * c" by (rule sum_list_const)
  with n have "meanY ps = c" by (simp add: meanY_def)
  with h show ?thesis by (simp add: sum_dy2_zero_iff)
qed

text \<open>
  Claim C8. \<open>correlation\<close> gives the same result on two lists that hold the same
  points in a different order.
\<close>

theorem correlation_permutation_invariant:
  assumes "mset ps = mset qs"
  shows "correlation ps = correlation qs"
proof -
  have len: "length ps = length qs" using assms by (rule mset_eq_length)
  have mx: "meanX ps = meanX qs"
    by (simp add: meanX_def len sum_list_map_mset_cong [OF assms])
  have my: "meanY ps = meanY qs"
    by (simp add: meanY_def len sum_list_map_mset_cong [OF assms])
  have "sum_dxdy ps = sum_dxdy qs" "sum_dx2 ps = sum_dx2 qs" "sum_dy2 ps = sum_dy2 qs"
    by (simp_all add: sum_dxdy_def sum_dx2_def sum_dy2_def mx my sum_list_map_mset_cong [OF assms])
  then show ?thesis by (simp add: correlation_unfold len)
qed

text \<open>
  C8 on three points and a rotation of them.
\<close>

theorem correlation_permutation_invariant_witness:
  "mset [\<lparr>p_id = ''a'', p_x = 0, p_y = 0\<rparr>, \<lparr>p_id = ''b'', p_x = 1, p_y = 1\<rparr>,
        \<lparr>p_id = ''c'', p_x = 2, p_y = 1\<rparr>]
     = mset [\<lparr>p_id = ''c'', p_x = 2, p_y = 1\<rparr>, \<lparr>p_id = ''a'', p_x = 0, p_y = 0\<rparr>,
        \<lparr>p_id = ''b'', p_x = 1, p_y = 1\<rparr>]
   \<and> correlation [\<lparr>p_id = ''a'', p_x = 0, p_y = 0\<rparr>, \<lparr>p_id = ''b'', p_x = 1, p_y = 1\<rparr>,
        \<lparr>p_id = ''c'', p_x = 2, p_y = 1\<rparr>]
     = correlation [\<lparr>p_id = ''c'', p_x = 2, p_y = 1\<rparr>, \<lparr>p_id = ''a'', p_x = 0, p_y = 0\<rparr>,
        \<lparr>p_id = ''b'', p_x = 1, p_y = 1\<rparr>]"
  using correlation_permutation_invariant [of "[\<lparr>p_id = ''a'', p_x = 0, p_y = 0\<rparr>,
        \<lparr>p_id = ''b'', p_x = 1, p_y = 1\<rparr>, \<lparr>p_id = ''c'', p_x = 2, p_y = 1\<rparr>]"
      "[\<lparr>p_id = ''c'', p_x = 2, p_y = 1\<rparr>, \<lparr>p_id = ''a'', p_x = 0, p_y = 0\<rparr>,
        \<lparr>p_id = ''b'', p_x = 1, p_y = 1\<rparr>]"]
  by (simp add: add.commute add.left_commute)

section \<open>Points on a line\<close>

lemma sum_list_line:
  "\<forall>p\<in>set ps. g p = m * f p + b \<Longrightarrow>
     sum_list (map g ps) = m * sum_list (map f ps) + real (length ps) * b"
  for f g :: "point \<Rightarrow> real"
  by (induction ps) (simp_all add: algebra_simps)

lemma sum_list_scaled:
  "\<forall>p\<in>set ps. g p = m * f p \<Longrightarrow> sum_list (map g ps) = m * sum_list (map f ps)"
  for f g :: "point \<Rightarrow> real"
  by (induction ps) (simp_all add: algebra_simps)

lemma meanY_on_line:
  assumes "\<forall>p\<in>set ps. p_y p = m * p_x p + b" and "ps \<noteq> []"
  shows "meanY ps = m * meanX ps + b"
proof -
  from assms(2) have n: "real (length ps) \<noteq> 0" by simp
  have "sum_list (map p_y ps) = m * sum_list (map p_x ps) + real (length ps) * b"
    using assms(1) by (rule sum_list_line)
  with n show ?thesis
    by (simp add: meanY_def meanX_def add_divide_distrib)
qed

lemma sums_on_line:
  assumes line: "\<forall>p\<in>set ps. p_y p = m * p_x p + b" and ne: "ps \<noteq> []"
  shows "sum_dxdy ps = m * sum_dx2 ps" and "sum_dy2 ps = m * (m * sum_dx2 ps)"
proof -
  have my: "meanY ps = m * meanX ps + b" using line ne by (rule meanY_on_line)
  have dy: "p_y p - meanY ps = m * (p_x p - meanX ps)" if "p \<in> set ps" for p
    using that line by (simp add: my algebra_simps)
  show "sum_dxdy ps = m * sum_dx2 ps"
    unfolding sum_dxdy_def sum_dx2_def
    by (rule sum_list_scaled) (simp add: dy)
  have "sum_dy2 ps = m * sum_dxdy ps"
    unfolding sum_dy2_def sum_dxdy_def
    by (rule sum_list_scaled) (simp add: dy algebra_simps)
  then show "sum_dy2 ps = m * (m * sum_dx2 ps)"
    by (simp add: \<open>sum_dxdy ps = m * sum_dx2 ps\<close>)
qed

lemma pearson_on_line:
  assumes line: "\<forall>p\<in>set ps. p_y p = m * p_x p + b"
    and two: "\<exists>p\<in>set ps. \<exists>q\<in>set ps. p_x p \<noteq> p_x q"
    and m: "m \<noteq> 0"
  shows "\<not> length ps < 2" and "sum_dx2 ps \<noteq> 0" and "sum_dy2 ps \<noteq> 0"
    and "pearson ps = m / \<bar>m\<bar>"
proof -
  from two have ne: "ps \<noteq> []" by auto
  from two show len: "\<not> length ps < 2"
    by (cases ps; cases "tl ps") auto
  from two show nzx: "sum_dx2 ps \<noteq> 0" by (metis sum_dx2_zero_iff)
  with sum_dx2_nonneg [of ps] have S: "0 < sum_dx2 ps" by (metis less_eq_real_def)
  show "sum_dy2 ps \<noteq> 0"
    using S m by (simp add: sums_on_line [OF line ne])
  have prod: "sum_dx2 ps * sum_dy2 ps = (m * sum_dx2 ps) * (m * sum_dx2 ps)"
    by (simp add: sums_on_line [OF line ne] algebra_simps)
  have root: "sqrt (sum_dx2 ps * sum_dy2 ps) = \<bar>m\<bar> * sum_dx2 ps"
    using S by (simp only: prod real_sqrt_abs2) (simp add: abs_mult)
  have "pearson ps = m * sum_dx2 ps / (\<bar>m\<bar> * sum_dx2 ps)"
    unfolding pearson_def root by (simp only: sums_on_line [OF line ne])
  with S show "pearson ps = m / \<bar>m\<bar>" by simp
qed

section \<open>The function in exact arithmetic\<close>

lemma exact_ops:
  "rnd exact x = Fin x"
  "add_with exact (Fin x) (Fin y) = Fin (x + y)"
  "sub_with exact (Fin x) (Fin y) = Fin (x - y)"
  "mul_with exact (Fin x) (Fin y) = Fin (x * y)"
  "y \<noteq> 0 \<Longrightarrow> div_with exact (Fin x) (Fin y) = Fin (x / y)"
  "0 \<le> x \<Longrightarrow> sqrt_with exact (Fin x) = Fin (sqrt x)"
  by (simp_all add: exact_def add_with_def sub_with_def mul_with_def div_with_def
      sqrt_with_def neg_f64_def)

lemma foldl_add_exact:
  "foldl (\<lambda>a p. add_with exact a (Fin (f p))) (Fin a0) ps = Fin (a0 + sum_list (map f ps))"
  for f :: "point \<Rightarrow> real"
  by (induction ps arbitrary: a0) (simp_all add: exact_ops)

lemma fold_corr_step_exact:
  "fold (corr_step_with exact (Fin mx) (Fin my)) ps (Fin n0, Fin a0, Fin b0) =
     (Fin (n0 + (\<Sum>p\<leftarrow>ps. (p_x p - mx) * (p_y p - my))),
      Fin (a0 + (\<Sum>p\<leftarrow>ps. (p_x p - mx) * (p_x p - mx))),
      Fin (b0 + (\<Sum>p\<leftarrow>ps. (p_y p - my) * (p_y p - my))))"
  by (induction ps arbitrary: n0 a0 b0) (simp_all add: corr_step_with_def exact_ops Let_def)

lemma correlation_exact_unfold:
  "correlation_with exact ps =
     Fin (if length ps < 2 \<or> sum_dx2 ps * sum_dy2 ps = 0 then 0
          else sum_dxdy ps / sqrt (sum_dx2 ps * sum_dy2 ps))"
proof (cases "length ps < 2")
  case True
  then show ?thesis by (simp add: correlation_with_def)
next
  case False
  then have n: "real (length ps) \<noteq> 0" by (cases ps) simp_all
  have mx: "div_with exact (foldl (\<lambda>a p. add_with exact a (rnd exact (p_x p))) (Fin 0) ps)
      (Fin (real (length ps))) = Fin (meanX ps)"
    using n by (simp add: foldl_add_exact exact_ops meanX_def)
  have my: "div_with exact (foldl (\<lambda>a p. add_with exact a (rnd exact (p_y p))) (Fin 0) ps)
      (Fin (real (length ps))) = Fin (meanY ps)"
    using n by (simp add: foldl_add_exact exact_ops meanY_def)
  have loop: "fold (corr_step_with exact (Fin (meanX ps)) (Fin (meanY ps))) ps (Fin 0, Fin 0, Fin 0) =
      (Fin (sum_dxdy ps), Fin (sum_dx2 ps), Fin (sum_dy2 ps))"
    by (simp add: fold_corr_step_exact sum_dxdy_def sum_dx2_def sum_dy2_def)
  have nonneg: "0 \<le> sum_dx2 ps * sum_dy2 ps"
    using sum_dx2_nonneg sum_dy2_nonneg by simp
  have code: "correlation_with exact ps =
      (if mul_with exact (Fin (sum_dx2 ps)) (Fin (sum_dy2 ps)) = Fin 0 then Fin 0
       else div_with exact (Fin (sum_dxdy ps))
          (sqrt_with exact (mul_with exact (Fin (sum_dx2 ps)) (Fin (sum_dy2 ps)))))"
    using False unfolding correlation_with_def Let_def mx my loop by simp
  show ?thesis
  proof (cases "sum_dx2 ps * sum_dy2 ps = 0")
    case True
    with False show ?thesis unfolding code by (simp add: exact_ops)
  next
    case nz: False
    then have "sqrt (sum_dx2 ps * sum_dy2 ps) \<noteq> 0" by simp
    with False nz nonneg show ?thesis
      unfolding code by (simp add: exact_ops del: real_sqrt_eq_zero_cancel_iff)
  qed
qed

lemma correlation_exact_link:
  "correlation ps = Inr r \<longleftrightarrow> correlation_with exact ps = Fin r"
  by (simp add: correlation_unfold correlation_exact_unfold)

lemma correlation_exact_pearson:
  assumes "\<not> length ps < 2" and "sum_dx2 ps \<noteq> 0" and "sum_dy2 ps \<noteq> 0"
  shows "correlation_with exact ps = Fin (pearson ps)"
  using assms by (simp add: correlation_exact_unfold pearson_def)

lemma correlation_exact_degenerate:
  "length ps < 2 \<or> sum_dx2 ps = 0 \<or> sum_dy2 ps = 0 \<Longrightarrow> correlation_with exact ps = Fin 0"
  by (auto simp add: correlation_exact_unfold)

text \<open>
  Claim C1, amended. In exact arithmetic, on a dataset of at least two points in which
  neither sum of squared deviations is zero, the function returns the Pearson
  coefficient: the sum of the products of the deviations from the means, divided by the
  square root of the product of the two sums of squared deviations.
\<close>

theorem correlation_exact_is_pearson:
  assumes "2 \<le> length ps" and "sum_dx2 ps \<noteq> 0" and "sum_dy2 ps \<noteq> 0"
  shows "correlation_with exact ps = Fin (pearson ps)"
  using assms by (intro correlation_exact_pearson) simp_all

text \<open>
  The hypotheses of C1 hold on the three points (0, 0), (1, 1), (2, 1), where the
  coefficient is 1 over the square root of 4/3.
\<close>

theorem correlation_exact_is_pearson_witness:
  "2 \<le> length [\<lparr>p_id = ''a'', p_x = 0, p_y = 0\<rparr>, \<lparr>p_id = ''b'', p_x = 1, p_y = 1\<rparr>,
        \<lparr>p_id = ''c'', p_x = 2, p_y = 1\<rparr>]
   \<and> sum_dx2 [\<lparr>p_id = ''a'', p_x = 0, p_y = 0\<rparr>, \<lparr>p_id = ''b'', p_x = 1, p_y = 1\<rparr>,
        \<lparr>p_id = ''c'', p_x = 2, p_y = 1\<rparr>] = 2
   \<and> sum_dy2 [\<lparr>p_id = ''a'', p_x = 0, p_y = 0\<rparr>, \<lparr>p_id = ''b'', p_x = 1, p_y = 1\<rparr>,
        \<lparr>p_id = ''c'', p_x = 2, p_y = 1\<rparr>] = 2 / 3
   \<and> correlation_with exact [\<lparr>p_id = ''a'', p_x = 0, p_y = 0\<rparr>,
        \<lparr>p_id = ''b'', p_x = 1, p_y = 1\<rparr>, \<lparr>p_id = ''c'', p_x = 2, p_y = 1\<rparr>]
       = Fin (1 / sqrt (4 / 3))"
  using correlation_exact_is_pearson [of "[\<lparr>p_id = ''a'', p_x = 0, p_y = 0\<rparr>,
        \<lparr>p_id = ''b'', p_x = 1, p_y = 1\<rparr>, \<lparr>p_id = ''c'', p_x = 2, p_y = 1\<rparr>]"]
  by (simp add: pearson_def sum_dxdy_def sum_dx2_def sum_dy2_def meanX_def meanY_def)

text \<open>
  Claim C3, amended. Let all points of a dataset lie on the line y = m * x + b. In
  exact arithmetic, if m = 0 the result is 0, and if the dataset has two points with
  different x-coordinates, the result is 1 when m > 0 and -1 when m < 0.
\<close>

theorem correlation_exact_on_line:
  assumes line: "\<forall>p\<in>set ps. p_y p = m * p_x p + b"
  shows "(m = 0 \<longrightarrow> correlation_with exact ps = Fin 0)
   \<and> ((\<exists>p\<in>set ps. \<exists>q\<in>set ps. p_x p \<noteq> p_x q) \<longrightarrow>
        (0 < m \<longrightarrow> correlation_with exact ps = Fin 1)
        \<and> (m < 0 \<longrightarrow> correlation_with exact ps = Fin (- 1)))"
proof (intro conjI impI)
  assume "m = 0"
  with line have "\<forall>p\<in>set ps. p_y p = b" by simp
  then have "sum_dy2 ps = 0" by (rule same_y_sum_dy2)
  then show "correlation_with exact ps = Fin 0" by (simp add: correlation_exact_degenerate)
next
  assume two: "\<exists>p\<in>set ps. \<exists>q\<in>set ps. p_x p \<noteq> p_x q"
  have r: "correlation_with exact ps = Fin (m / \<bar>m\<bar>)" if "m \<noteq> 0"
    using pearson_on_line [OF line two that]
    by (simp add: correlation_exact_pearson)
  show "correlation_with exact ps = Fin 1" if "0 < m"
    using that r by simp
  show "correlation_with exact ps = Fin (- 1)" if "m < 0"
    using that r by simp
qed

text \<open>
  C3 as amended on three points of y = 2 * x + 3, of y = -2 * x + 3 and of y = 3.
\<close>

theorem correlation_exact_on_line_witness:
  "correlation_with exact [\<lparr>p_id = ''a'', p_x = 1, p_y = 5\<rparr>, \<lparr>p_id = ''b'', p_x = 2, p_y = 7\<rparr>,
        \<lparr>p_id = ''c'', p_x = 4, p_y = 11\<rparr>] = Fin 1
   \<and> correlation_with exact [\<lparr>p_id = ''a'', p_x = 1, p_y = 1\<rparr>, \<lparr>p_id = ''b'', p_x = 2, p_y = - 1\<rparr>,
        \<lparr>p_id = ''c'', p_x = 4, p_y = - 5\<rparr>] = Fin (- 1)
   \<and> correlation_with exact [\<lparr>p_id = ''a'', p_x = 1, p_y = 3\<rparr>, \<lparr>p_id = ''b'', p_x = 2, p_y = 3\<rparr>,
        \<lparr>p_id = ''c'', p_x = 4, p_y = 3\<rparr>] = Fin 0"
proof -
  let ?up = "[\<lparr>p_id = ''a'', p_x = 1, p_y = 5\<rparr>, \<lparr>p_id = ''b'', p_x = 2, p_y = 7\<rparr>,
        \<lparr>p_id = ''c'', p_x = 4, p_y = 11\<rparr>]"
  let ?down = "[\<lparr>p_id = ''a'', p_x = 1, p_y = 1\<rparr>, \<lparr>p_id = ''b'', p_x = 2, p_y = - 1\<rparr>,
        \<lparr>p_id = ''c'', p_x = 4, p_y = - 5\<rparr>]"
  let ?flat = "[\<lparr>p_id = ''a'', p_x = 1, p_y = 3\<rparr>, \<lparr>p_id = ''b'', p_x = 2, p_y = 3\<rparr>,
        \<lparr>p_id = ''c'', p_x = 4, p_y = 3\<rparr>]"
  have up: "\<forall>p\<in>set ?up. p_y p = 2 * p_x p + 3"
    and down: "\<forall>p\<in>set ?down. p_y p = - 2 * p_x p + 3"
    and flat: "\<forall>p\<in>set ?flat. p_y p = 0 * p_x p + 3"
    by simp_all
  have two_up: "\<exists>p\<in>set ?up. \<exists>q\<in>set ?up. p_x p \<noteq> p_x q"
    and two_down: "\<exists>p\<in>set ?down. \<exists>q\<in>set ?down. p_x p \<noteq> p_x q"
    by auto
  from correlation_exact_on_line [OF up] two_up have "correlation_with exact ?up = Fin 1"
    by (simp del: set_simps)
  moreover from correlation_exact_on_line [OF down] two_down
  have "correlation_with exact ?down = Fin (- 1)"
    by (simp del: set_simps)
  moreover from correlation_exact_on_line [OF flat] have "correlation_with exact ?flat = Fin 0"
    by (simp del: set_simps)
  ultimately show ?thesis by simp
qed

section \<open>The function in double arithmetic\<close>

text \<open>
  Rules to evaluate a rounding from its exponent, quantum and significand, then the
  operations the function performs on each of the six datasets, one lemma per
  operation.
\<close>

lemma sqrt_bits_numeral:
  "sqrt_bits (numeral n) y r =
     sqrt_bits (pred_numeral n) y
       (if (r + 2 ^ pred_numeral n) * (r + 2 ^ pred_numeral n) \<le> y then r + 2 ^ pred_numeral n
        else r)"
  by (simp add: numeral_eq_Suc)

lemma rnd_ieee: "rnd ieee x = round_f64 x"
  by (simp add: ieee_def)

lemma arith_ieee:
  "add_with ieee (Fin x) (Fin y) = round_f64 (x + y)"
  "sub_with ieee (Fin x) (Fin y) = round_f64 (x - y)"
  "mul_with ieee (Fin x) (Fin y) = round_f64 (x * y)"
  by (simp_all add: add_with_def sub_with_def mul_with_def neg_f64_def ieee_def)

lemma div_ieee:
  "div_with ieee (Fin x) (Fin y) =
     (if y = 0 then (if x = 0 then NaN else inf_signed (x < 0)) else round_f64 (x / y))"
  by (simp add: div_with_def ieee_def)

lemma sqrt_ieee:
  "sqrt_with ieee (Fin x) = (if x < 0 then NaN else if x = 0 then Fin 0 else sqrt_f64 x)"
  by (simp add: sqrt_with_def ieee_def)

lemmas special_ieee = add_with_def sub_with_def mul_with_def div_with_def sqrt_with_def
  neg_f64_def negative_def inf_signed_def

lemma round_f64_eval:
  assumes "x \<noteq> 0" and "ilog2 \<bar>x\<bar> = e" and "max (e - 52) (- 1074) = q"
    and "rne (\<bar>x\<bar> / pow2 q) = m" and "of_int m * pow2 q = r" and "r < 2 ^ 1024"
  shows "round_f64 x = Fin (if 0 < x then r else - r)"
proof -
  from assms(6) have nle: "\<not> 2 ^ 1024 \<le> r" by (simp only: not_le)
  show ?thesis
    unfolding round_f64_def Let_def by (simp only: assms(1-5) nle if_False)
qed

lemma round_f64_overflow:
  assumes "x \<noteq> 0" and "ilog2 \<bar>x\<bar> = e" and "max (e - 52) (- 1074) = q"
    and "rne (\<bar>x\<bar> / pow2 q) = m" and "of_int m * pow2 q = r" and "2 ^ 1024 \<le> r"
  shows "round_f64 x = inf_signed (x < 0)"
  unfolding round_f64_def Let_def by (simp only: assms if_False if_True)

lemma sqrt_f64_eval:
  assumes "ilog2 x div 2 - 52 = q" and "x / pow2 (2 * q) = y" and "sqrt_floor y = m"
    and "(m + 1 / 2) * (m + 1 / 2) = h"
    and "(if y < h then m else if h < y then m + 1 else if even \<lfloor>m\<rfloor> then m else m + 1) = m'"
    and "m' * pow2 q = r"
  shows "sqrt_f64 x = Fin r"
  unfolding sqrt_f64_def Let_def by (simp only: assms)

lemma eval_near_1: "rnd ieee 1 = Fin 1"
  using round_f64_eval [of "1" "0" "- 52" "4503599627370496" "1"]
  by (simp add: rnd_ieee ilog2_def rne_def pow2_def inf_signed_def Let_def)

lemma eval_near_2: "add_with ieee (Fin 0) (Fin 1) = Fin 1"
  using round_f64_eval [of "1" "0" "- 52" "4503599627370496" "1"]
  by (simp add: arith_ieee ilog2_def rne_def pow2_def inf_signed_def Let_def)

lemma eval_near_3: "rnd ieee (1125899906842625 / 1125899906842624) = Fin (1125899906842625 / 1125899906842624)"
  using round_f64_eval [of "1125899906842625 / 1125899906842624" "0" "- 52" "4503599627370500" "1125899906842625 / 1125899906842624"]
  by (simp add: rnd_ieee ilog2_def rne_def pow2_def inf_signed_def Let_def)

lemma eval_near_4: "add_with ieee (Fin 1) (Fin (1125899906842625 / 1125899906842624)) = Fin (2251799813685249 / 1125899906842624)"
  using round_f64_eval [of "2251799813685249 / 1125899906842624" "1" "- 51" "4503599627370498" "2251799813685249 / 1125899906842624"]
  by (simp add: arith_ieee ilog2_def rne_def pow2_def inf_signed_def Let_def)

lemma eval_near_5: "add_with ieee (Fin (2251799813685249 / 1125899906842624)) (Fin (1125899906842625 / 1125899906842624)) = Fin (1688849860263937 / 562949953421312)"
  using round_f64_eval [of "1688849860263937 / 562949953421312" "1" "- 51" "6755399441055748" "1688849860263937 / 562949953421312"]
  by (simp add: arith_ieee ilog2_def rne_def pow2_def inf_signed_def Let_def)

lemma eval_near_6: "div_with ieee (Fin (1688849860263937 / 562949953421312)) (Fin 3) = Fin (4503599627370499 / 4503599627370496)"
  using round_f64_eval [of "1688849860263937 / 1688849860263936" "0" "- 52" "4503599627370499" "4503599627370499 / 4503599627370496"]
  by (simp add: div_ieee ilog2_def rne_def pow2_def inf_signed_def Let_def)

lemma eval_near_7: "rnd ieee 4 = Fin 4"
  using round_f64_eval [of "4" "2" "- 50" "4503599627370496" "4"]
  by (simp add: rnd_ieee ilog2_def rne_def pow2_def inf_signed_def Let_def)

lemma eval_near_8: "add_with ieee (Fin 0) (Fin 4) = Fin 4"
  using round_f64_eval [of "4" "2" "- 50" "4503599627370496" "4"]
  by (simp add: arith_ieee ilog2_def rne_def pow2_def inf_signed_def Let_def)

lemma eval_near_9: "rnd ieee (4503599627370497 / 1125899906842624) = Fin (4503599627370497 / 1125899906842624)"
  using round_f64_eval [of "4503599627370497 / 1125899906842624" "2" "- 50" "4503599627370497" "4503599627370497 / 1125899906842624"]
  by (simp add: rnd_ieee ilog2_def rne_def pow2_def inf_signed_def Let_def)

lemma eval_near_10: "add_with ieee (Fin 4) (Fin (4503599627370497 / 1125899906842624)) = Fin 8"
  using round_f64_eval [of "9007199254740993 / 1125899906842624" "3" "- 49" "4503599627370496" "8"]
  by (simp add: arith_ieee ilog2_def rne_def pow2_def inf_signed_def Let_def)

lemma eval_near_11: "add_with ieee (Fin 8) (Fin (4503599627370497 / 1125899906842624)) = Fin 12"
  using round_f64_eval [of "13510798882111489 / 1125899906842624" "3" "- 49" "6755399441055744" "12"]
  by (simp add: arith_ieee ilog2_def rne_def pow2_def inf_signed_def Let_def)

lemma eval_near_12: "div_with ieee (Fin 12) (Fin 3) = Fin 4"
  using round_f64_eval [of "4" "2" "- 50" "4503599627370496" "4"]
  by (simp add: div_ieee ilog2_def rne_def pow2_def inf_signed_def Let_def)

lemma eval_near_13: "sub_with ieee (Fin 1) (Fin (4503599627370499 / 4503599627370496)) = Fin (- (3 / 4503599627370496))"
  using round_f64_eval [of "- (3 / 4503599627370496)" "- 51" "- 103" "6755399441055744" "3 / 4503599627370496"]
  by (simp add: arith_ieee ilog2_def rne_def pow2_def inf_signed_def Let_def)

lemma eval_near_14: "sub_with ieee (Fin 4) (Fin 4) = Fin 0"
  by (simp add: arith_ieee round_f64_def)

lemma eval_near_15: "mul_with ieee (Fin (- (3 / 4503599627370496))) (Fin 0) = Fin 0"
  by (simp add: arith_ieee round_f64_def)

lemma eval_near_16: "add_with ieee (Fin 0) (Fin 0) = Fin 0"
  by (simp add: arith_ieee round_f64_def)

lemma eval_near_17: "mul_with ieee (Fin (- (3 / 4503599627370496))) (Fin (- (3 / 4503599627370496))) = Fin (9 / 20282409603651670423947251286016)"
  using round_f64_eval [of "9 / 20282409603651670423947251286016" "- 101" "- 153" "5066549580791808" "9 / 20282409603651670423947251286016"]
  by (simp add: arith_ieee ilog2_def rne_def pow2_def inf_signed_def Let_def)

lemma eval_near_18: "add_with ieee (Fin 0) (Fin (9 / 20282409603651670423947251286016)) = Fin (9 / 20282409603651670423947251286016)"
  using round_f64_eval [of "9 / 20282409603651670423947251286016" "- 101" "- 153" "5066549580791808" "9 / 20282409603651670423947251286016"]
  by (simp add: arith_ieee ilog2_def rne_def pow2_def inf_signed_def Let_def)

lemma eval_near_19: "mul_with ieee (Fin 0) (Fin 0) = Fin 0"
  by (simp add: arith_ieee round_f64_def)

lemma eval_near_20: "sub_with ieee (Fin (1125899906842625 / 1125899906842624)) (Fin (4503599627370499 / 4503599627370496)) = Fin (1 / 4503599627370496)"
  using round_f64_eval [of "1 / 4503599627370496" "- 52" "- 104" "4503599627370496" "1 / 4503599627370496"]
  by (simp add: arith_ieee ilog2_def rne_def pow2_def inf_signed_def Let_def)

lemma eval_near_21: "sub_with ieee (Fin (4503599627370497 / 1125899906842624)) (Fin 4) = Fin (1 / 1125899906842624)"
  using round_f64_eval [of "1 / 1125899906842624" "- 50" "- 102" "4503599627370496" "1 / 1125899906842624"]
  by (simp add: arith_ieee ilog2_def rne_def pow2_def inf_signed_def Let_def)

lemma eval_near_22: "mul_with ieee (Fin (1 / 4503599627370496)) (Fin (1 / 1125899906842624)) = Fin (1 / 5070602400912917605986812821504)"
  using round_f64_eval [of "1 / 5070602400912917605986812821504" "- 102" "- 154" "4503599627370496" "1 / 5070602400912917605986812821504"]
  by (simp add: arith_ieee ilog2_def rne_def pow2_def inf_signed_def Let_def)

lemma eval_near_23: "add_with ieee (Fin 0) (Fin (1 / 5070602400912917605986812821504)) = Fin (1 / 5070602400912917605986812821504)"
  using round_f64_eval [of "1 / 5070602400912917605986812821504" "- 102" "- 154" "4503599627370496" "1 / 5070602400912917605986812821504"]
  by (simp add: arith_ieee ilog2_def rne_def pow2_def inf_signed_def Let_def)

lemma eval_near_24: "mul_with ieee (Fin (1 / 4503599627370496)) (Fin (1 / 4503599627370496)) = Fin (1 / 20282409603651670423947251286016)"
  using round_f64_eval [of "1 / 20282409603651670423947251286016" "- 104" "- 156" "4503599627370496" "1 / 20282409603651670423947251286016"]
  by (simp add: arith_ieee ilog2_def rne_def pow2_def inf_signed_def Let_def)

lemma eval_near_25: "add_with ieee (Fin (9 / 20282409603651670423947251286016)) (Fin (1 / 20282409603651670423947251286016)) = Fin (5 / 10141204801825835211973625643008)"
  using round_f64_eval [of "5 / 10141204801825835211973625643008" "- 101" "- 153" "5629499534213120" "5 / 10141204801825835211973625643008"]
  by (simp add: arith_ieee ilog2_def rne_def pow2_def inf_signed_def Let_def)

lemma eval_near_26: "mul_with ieee (Fin (1 / 1125899906842624)) (Fin (1 / 1125899906842624)) = Fin (1 / 1267650600228229401496703205376)"
  using round_f64_eval [of "1 / 1267650600228229401496703205376" "- 100" "- 152" "4503599627370496" "1 / 1267650600228229401496703205376"]
  by (simp add: arith_ieee ilog2_def rne_def pow2_def inf_signed_def Let_def)

lemma eval_near_27: "add_with ieee (Fin 0) (Fin (1 / 1267650600228229401496703205376)) = Fin (1 / 1267650600228229401496703205376)"
  using round_f64_eval [of "1 / 1267650600228229401496703205376" "- 100" "- 152" "4503599627370496" "1 / 1267650600228229401496703205376"]
  by (simp add: arith_ieee ilog2_def rne_def pow2_def inf_signed_def Let_def)

lemma eval_near_28: "add_with ieee (Fin (1 / 5070602400912917605986812821504)) (Fin (1 / 5070602400912917605986812821504)) = Fin (1 / 2535301200456458802993406410752)"
  using round_f64_eval [of "1 / 2535301200456458802993406410752" "- 101" "- 153" "4503599627370496" "1 / 2535301200456458802993406410752"]
  by (simp add: arith_ieee ilog2_def rne_def pow2_def inf_signed_def Let_def)

lemma eval_near_29: "add_with ieee (Fin (5 / 10141204801825835211973625643008)) (Fin (1 / 20282409603651670423947251286016)) = Fin (11 / 20282409603651670423947251286016)"
  using round_f64_eval [of "11 / 20282409603651670423947251286016" "- 101" "- 153" "6192449487634432" "11 / 20282409603651670423947251286016"]
  by (simp add: arith_ieee ilog2_def rne_def pow2_def inf_signed_def Let_def)

lemma eval_near_30: "add_with ieee (Fin (1 / 1267650600228229401496703205376)) (Fin (1 / 1267650600228229401496703205376)) = Fin (1 / 633825300114114700748351602688)"
  using round_f64_eval [of "1 / 633825300114114700748351602688" "- 99" "- 151" "4503599627370496" "1 / 633825300114114700748351602688"]
  by (simp add: arith_ieee ilog2_def rne_def pow2_def inf_signed_def Let_def)

lemma eval_near_31: "mul_with ieee (Fin (11 / 20282409603651670423947251286016)) (Fin (1 / 633825300114114700748351602688)) = Fin (11 / 12855504354071922204335696738729300820177623950262342682411008)"
  using round_f64_eval [of "11 / 12855504354071922204335696738729300820177623950262342682411008" "- 200" "- 252" "6192449487634432" "11 / 12855504354071922204335696738729300820177623950262342682411008"]
  by (simp add: arith_ieee ilog2_def rne_def pow2_def inf_signed_def Let_def)

lemma eval_near_32: "sqrt_with ieee (Fin (11 / 12855504354071922204335696738729300820177623950262342682411008)) = Fin (5280938667038375 / 5708990770823839524233143877797980545530986496)"
  using sqrt_f64_eval [of "11 / 12855504354071922204335696738729300820177623950262342682411008" "- 152" "27888313205021046832927470518272" "5280938667038374" "111553252820084174603020222409001 / 4" "5280938667038375" "5280938667038375 / 5708990770823839524233143877797980545530986496"]
  by (simp add: sqrt_ieee ilog2_def pow2_def sqrt_floor_def sqrt_bits_numeral)

lemma eval_near_33: "div_with ieee (Fin (1 / 2535301200456458802993406410752)) (Fin (5280938667038375 / 5708990770823839524233143877797980545530986496)) = Fin (7681365333873999 / 18014398509481984)"
  using round_f64_eval [of "2251799813685248 / 5280938667038375" "- 2" "- 54" "7681365333873999" "7681365333873999 / 18014398509481984"]
  by (simp add: div_ieee ilog2_def rne_def pow2_def inf_signed_def Let_def)

lemmas eval_near = eval_near_1 eval_near_2 eval_near_3 eval_near_4 eval_near_5 eval_near_6 eval_near_7 eval_near_8 eval_near_9 eval_near_10 eval_near_11 eval_near_12 eval_near_13 eval_near_14 eval_near_15 eval_near_16 eval_near_17 eval_near_18 eval_near_19 eval_near_20 eval_near_21 eval_near_22 eval_near_23 eval_near_24 eval_near_25 eval_near_26 eval_near_27 eval_near_28 eval_near_29 eval_near_30 eval_near_31 eval_near_32 eval_near_33

lemma corr_near: "correlation_with ieee near_points = Fin (7681365333873999 / 18014398509481984)"
  unfolding near_points_def correlation_with_def corr_step_with_def Let_def
  by (simp add: eval_near)

lemma eval_tiny_1: "rnd ieee 0 = Fin 0"
  by (simp add: rnd_ieee round_f64_def)

lemma eval_tiny_2: "add_with ieee (Fin 0) (Fin 0) = Fin 0"
  by (simp add: arith_ieee round_f64_def)

lemma eval_tiny_3: "rnd ieee (1 / 948568795032094272909893509191171341133987714380927500611236528192824358010355712) = Fin (1 / 948568795032094272909893509191171341133987714380927500611236528192824358010355712)"
  using round_f64_eval [of "1 / 948568795032094272909893509191171341133987714380927500611236528192824358010355712" "- 269" "- 321" "4503599627370496" "1 / 948568795032094272909893509191171341133987714380927500611236528192824358010355712"]
  by (simp add: rnd_ieee ilog2_def rne_def pow2_def inf_signed_def Let_def)

lemma eval_tiny_4: "add_with ieee (Fin 0) (Fin (1 / 948568795032094272909893509191171341133987714380927500611236528192824358010355712)) = Fin (1 / 948568795032094272909893509191171341133987714380927500611236528192824358010355712)"
  using round_f64_eval [of "1 / 948568795032094272909893509191171341133987714380927500611236528192824358010355712" "- 269" "- 321" "4503599627370496" "1 / 948568795032094272909893509191171341133987714380927500611236528192824358010355712"]
  by (simp add: arith_ieee ilog2_def rne_def pow2_def inf_signed_def Let_def)

lemma eval_tiny_5: "div_with ieee (Fin (1 / 948568795032094272909893509191171341133987714380927500611236528192824358010355712)) (Fin 2) = Fin (1 / 1897137590064188545819787018382342682267975428761855001222473056385648716020711424)"
  using round_f64_eval [of "1 / 1897137590064188545819787018382342682267975428761855001222473056385648716020711424" "- 270" "- 322" "4503599627370496" "1 / 1897137590064188545819787018382342682267975428761855001222473056385648716020711424"]
  by (simp add: div_ieee ilog2_def rne_def pow2_def inf_signed_def Let_def)

lemma eval_tiny_6: "sub_with ieee (Fin 0) (Fin (1 / 1897137590064188545819787018382342682267975428761855001222473056385648716020711424)) = Fin (- (1 / 1897137590064188545819787018382342682267975428761855001222473056385648716020711424))"
  using round_f64_eval [of "- (1 / 1897137590064188545819787018382342682267975428761855001222473056385648716020711424)" "- 270" "- 322" "4503599627370496" "1 / 1897137590064188545819787018382342682267975428761855001222473056385648716020711424"]
  by (simp add: arith_ieee ilog2_def rne_def pow2_def inf_signed_def Let_def)

lemma eval_tiny_7: "mul_with ieee (Fin (- (1 / 1897137590064188545819787018382342682267975428761855001222473056385648716020711424))) (Fin (- (1 / 1897137590064188545819787018382342682267975428761855001222473056385648716020711424))) = Fin (1 / 3599131035634557106248430806148785487095757694641533306480604458089470064537190296255232548883112685719936728506816716098566612844395439751206812144692131084107776)"
  using round_f64_eval [of "1 / 3599131035634557106248430806148785487095757694641533306480604458089470064537190296255232548883112685719936728506816716098566612844395439751206812144692131084107776" "- 540" "- 592" "4503599627370496" "1 / 3599131035634557106248430806148785487095757694641533306480604458089470064537190296255232548883112685719936728506816716098566612844395439751206812144692131084107776"]
  by (simp add: arith_ieee ilog2_def rne_def pow2_def inf_signed_def Let_def)

lemma eval_tiny_8: "add_with ieee (Fin 0) (Fin (1 / 3599131035634557106248430806148785487095757694641533306480604458089470064537190296255232548883112685719936728506816716098566612844395439751206812144692131084107776)) = Fin (1 / 3599131035634557106248430806148785487095757694641533306480604458089470064537190296255232548883112685719936728506816716098566612844395439751206812144692131084107776)"
  using round_f64_eval [of "1 / 3599131035634557106248430806148785487095757694641533306480604458089470064537190296255232548883112685719936728506816716098566612844395439751206812144692131084107776" "- 540" "- 592" "4503599627370496" "1 / 3599131035634557106248430806148785487095757694641533306480604458089470064537190296255232548883112685719936728506816716098566612844395439751206812144692131084107776"]
  by (simp add: arith_ieee ilog2_def rne_def pow2_def inf_signed_def Let_def)

lemma eval_tiny_9: "sub_with ieee (Fin (1 / 948568795032094272909893509191171341133987714380927500611236528192824358010355712)) (Fin (1 / 1897137590064188545819787018382342682267975428761855001222473056385648716020711424)) = Fin (1 / 1897137590064188545819787018382342682267975428761855001222473056385648716020711424)"
  using round_f64_eval [of "1 / 1897137590064188545819787018382342682267975428761855001222473056385648716020711424" "- 270" "- 322" "4503599627370496" "1 / 1897137590064188545819787018382342682267975428761855001222473056385648716020711424"]
  by (simp add: arith_ieee ilog2_def rne_def pow2_def inf_signed_def Let_def)

lemma eval_tiny_10: "mul_with ieee (Fin (1 / 1897137590064188545819787018382342682267975428761855001222473056385648716020711424)) (Fin (1 / 1897137590064188545819787018382342682267975428761855001222473056385648716020711424)) = Fin (1 / 3599131035634557106248430806148785487095757694641533306480604458089470064537190296255232548883112685719936728506816716098566612844395439751206812144692131084107776)"
  using round_f64_eval [of "1 / 3599131035634557106248430806148785487095757694641533306480604458089470064537190296255232548883112685719936728506816716098566612844395439751206812144692131084107776" "- 540" "- 592" "4503599627370496" "1 / 3599131035634557106248430806148785487095757694641533306480604458089470064537190296255232548883112685719936728506816716098566612844395439751206812144692131084107776"]
  by (simp add: arith_ieee ilog2_def rne_def pow2_def inf_signed_def Let_def)

lemma eval_tiny_11: "add_with ieee (Fin (1 / 3599131035634557106248430806148785487095757694641533306480604458089470064537190296255232548883112685719936728506816716098566612844395439751206812144692131084107776)) (Fin (1 / 3599131035634557106248430806148785487095757694641533306480604458089470064537190296255232548883112685719936728506816716098566612844395439751206812144692131084107776)) = Fin (1 / 1799565517817278553124215403074392743547878847320766653240302229044735032268595148127616274441556342859968364253408358049283306422197719875603406072346065542053888)"
  using round_f64_eval [of "1 / 1799565517817278553124215403074392743547878847320766653240302229044735032268595148127616274441556342859968364253408358049283306422197719875603406072346065542053888" "- 539" "- 591" "4503599627370496" "1 / 1799565517817278553124215403074392743547878847320766653240302229044735032268595148127616274441556342859968364253408358049283306422197719875603406072346065542053888"]
  by (simp add: arith_ieee ilog2_def rne_def pow2_def inf_signed_def Let_def)

lemma eval_tiny_12: "mul_with ieee (Fin (1 / 1799565517817278553124215403074392743547878847320766653240302229044735032268595148127616274441556342859968364253408358049283306422197719875603406072346065542053888)) (Fin (1 / 1799565517817278553124215403074392743547878847320766653240302229044735032268595148127616274441556342859968364253408358049283306422197719875603406072346065542053888)) = Fin 0"
  using round_f64_eval [of "1 / 3238436052916969893639925547502676912792906396226273893710421728438885433087925550271366139222993991922993245829068990582236939798172695629872214399051816158744278788425061781831470523873491461459836282855563921096992119734795083177889653690386552901452960904197740312837334633843688040514981240138336100212923323857495916544" "- 1078" "- 1074" "0" "0"]
  by (simp add: arith_ieee ilog2_def rne_def pow2_def inf_signed_def Let_def)

lemmas eval_tiny = eval_tiny_1 eval_tiny_2 eval_tiny_3 eval_tiny_4 eval_tiny_5 eval_tiny_6 eval_tiny_7 eval_tiny_8 eval_tiny_9 eval_tiny_10 eval_tiny_11 eval_tiny_12

lemma corr_tiny: "correlation_with ieee tiny_points = Fin 0"
  unfolding tiny_points_def correlation_with_def corr_step_with_def Let_def
  by (simp add: eval_tiny)

lemma eval_ints_1: "rnd ieee 4 = Fin 4"
  using round_f64_eval [of "4" "2" "- 50" "4503599627370496" "4"]
  by (simp add: rnd_ieee ilog2_def rne_def pow2_def inf_signed_def Let_def)

lemma eval_ints_2: "add_with ieee (Fin 0) (Fin 4) = Fin 4"
  using round_f64_eval [of "4" "2" "- 50" "4503599627370496" "4"]
  by (simp add: arith_ieee ilog2_def rne_def pow2_def inf_signed_def Let_def)

lemma eval_ints_3: "rnd ieee 1 = Fin 1"
  using round_f64_eval [of "1" "0" "- 52" "4503599627370496" "1"]
  by (simp add: rnd_ieee ilog2_def rne_def pow2_def inf_signed_def Let_def)

lemma eval_ints_4: "add_with ieee (Fin 4) (Fin 1) = Fin 5"
  using round_f64_eval [of "5" "2" "- 50" "5629499534213120" "5"]
  by (simp add: arith_ieee ilog2_def rne_def pow2_def inf_signed_def Let_def)

lemma eval_ints_5: "rnd ieee 17 = Fin 17"
  using round_f64_eval [of "17" "4" "- 48" "4785074604081152" "17"]
  by (simp add: rnd_ieee ilog2_def rne_def pow2_def inf_signed_def Let_def)

lemma eval_ints_6: "add_with ieee (Fin 5) (Fin 17) = Fin 22"
  using round_f64_eval [of "22" "4" "- 48" "6192449487634432" "22"]
  by (simp add: arith_ieee ilog2_def rne_def pow2_def inf_signed_def Let_def)

lemma eval_ints_7: "div_with ieee (Fin 22) (Fin 3) = Fin (8256599316845909 / 1125899906842624)"
  using round_f64_eval [of "22 / 3" "2" "- 50" "8256599316845909" "8256599316845909 / 1125899906842624"]
  by (simp add: div_ieee ilog2_def rne_def pow2_def inf_signed_def Let_def)

lemma eval_ints_8: "rnd ieee 7 = Fin 7"
  using round_f64_eval [of "7" "2" "- 50" "7881299347898368" "7"]
  by (simp add: rnd_ieee ilog2_def rne_def pow2_def inf_signed_def Let_def)

lemma eval_ints_9: "add_with ieee (Fin 0) (Fin 7) = Fin 7"
  using round_f64_eval [of "7" "2" "- 50" "7881299347898368" "7"]
  by (simp add: arith_ieee ilog2_def rne_def pow2_def inf_signed_def Let_def)

lemma eval_ints_10: "add_with ieee (Fin 7) (Fin 4) = Fin 11"
  using round_f64_eval [of "11" "3" "- 49" "6192449487634432" "11"]
  by (simp add: arith_ieee ilog2_def rne_def pow2_def inf_signed_def Let_def)

lemma eval_ints_11: "rnd ieee 20 = Fin 20"
  using round_f64_eval [of "20" "4" "- 48" "5629499534213120" "20"]
  by (simp add: rnd_ieee ilog2_def rne_def pow2_def inf_signed_def Let_def)

lemma eval_ints_12: "add_with ieee (Fin 11) (Fin 20) = Fin 31"
  using round_f64_eval [of "31" "4" "- 48" "8725724278030336" "31"]
  by (simp add: arith_ieee ilog2_def rne_def pow2_def inf_signed_def Let_def)

lemma eval_ints_13: "div_with ieee (Fin 31) (Fin 3) = Fin (5817149518686891 / 562949953421312)"
  using round_f64_eval [of "31 / 3" "3" "- 49" "5817149518686891" "5817149518686891 / 562949953421312"]
  by (simp add: div_ieee ilog2_def rne_def pow2_def inf_signed_def Let_def)

lemma eval_ints_14: "sub_with ieee (Fin 4) (Fin (8256599316845909 / 1125899906842624)) = Fin (- (3752999689475413 / 1125899906842624))"
  using round_f64_eval [of "- (3752999689475413 / 1125899906842624)" "1" "- 51" "7505999378950826" "3752999689475413 / 1125899906842624"]
  by (simp add: arith_ieee ilog2_def rne_def pow2_def inf_signed_def Let_def)

lemma eval_ints_15: "sub_with ieee (Fin 7) (Fin (5817149518686891 / 562949953421312)) = Fin (- (1876499844737707 / 562949953421312))"
  using round_f64_eval [of "- (1876499844737707 / 562949953421312)" "1" "- 51" "7505999378950828" "1876499844737707 / 562949953421312"]
  by (simp add: arith_ieee ilog2_def rne_def pow2_def inf_signed_def Let_def)

lemma eval_ints_16: "mul_with ieee (Fin (- (3752999689475413 / 1125899906842624))) (Fin (- (1876499844737707 / 562949953421312))) = Fin (6254999482459023 / 562949953421312)"
  using round_f64_eval [of "7042503334601275078259410497991 / 633825300114114700748351602688" "3" "- 49" "6254999482459023" "6254999482459023 / 562949953421312"]
  by (simp add: arith_ieee ilog2_def rne_def pow2_def inf_signed_def Let_def)

lemma eval_ints_17: "add_with ieee (Fin 0) (Fin (6254999482459023 / 562949953421312)) = Fin (6254999482459023 / 562949953421312)"
  using round_f64_eval [of "6254999482459023 / 562949953421312" "3" "- 49" "6254999482459023" "6254999482459023 / 562949953421312"]
  by (simp add: arith_ieee ilog2_def rne_def pow2_def inf_signed_def Let_def)

lemma eval_ints_18: "mul_with ieee (Fin (- (3752999689475413 / 1125899906842624))) (Fin (- (3752999689475413 / 1125899906842624))) = Fin (6254999482459021 / 562949953421312)"
  using round_f64_eval [of "14085006669202546403519131520569 / 1267650600228229401496703205376" "3" "- 49" "6254999482459021" "6254999482459021 / 562949953421312"]
  by (simp add: arith_ieee ilog2_def rne_def pow2_def inf_signed_def Let_def)

lemma eval_ints_19: "add_with ieee (Fin 0) (Fin (6254999482459021 / 562949953421312)) = Fin (6254999482459021 / 562949953421312)"
  using round_f64_eval [of "6254999482459021 / 562949953421312" "3" "- 49" "6254999482459021" "6254999482459021 / 562949953421312"]
  by (simp add: arith_ieee ilog2_def rne_def pow2_def inf_signed_def Let_def)

lemma eval_ints_20: "mul_with ieee (Fin (- (1876499844737707 / 562949953421312))) (Fin (- (1876499844737707 / 562949953421312))) = Fin (390937467653689 / 35184372088832)"
  using round_f64_eval [of "3521251667300638477379627617849 / 316912650057057350374175801344" "3" "- 49" "6254999482459024" "390937467653689 / 35184372088832"]
  by (simp add: arith_ieee ilog2_def rne_def pow2_def inf_signed_def Let_def)

lemma eval_ints_21: "add_with ieee (Fin 0) (Fin (390937467653689 / 35184372088832)) = Fin (390937467653689 / 35184372088832)"
  using round_f64_eval [of "390937467653689 / 35184372088832" "3" "- 49" "6254999482459024" "390937467653689 / 35184372088832"]
  by (simp add: arith_ieee ilog2_def rne_def pow2_def inf_signed_def Let_def)

lemma eval_ints_22: "sub_with ieee (Fin 1) (Fin (8256599316845909 / 1125899906842624)) = Fin (- (7130699410003285 / 1125899906842624))"
  using round_f64_eval [of "- (7130699410003285 / 1125899906842624)" "2" "- 50" "7130699410003285" "7130699410003285 / 1125899906842624"]
  by (simp add: arith_ieee ilog2_def rne_def pow2_def inf_signed_def Let_def)

lemma eval_ints_23: "sub_with ieee (Fin 4) (Fin (5817149518686891 / 562949953421312)) = Fin (- (3565349705001643 / 562949953421312))"
  using round_f64_eval [of "- (3565349705001643 / 562949953421312)" "2" "- 50" "7130699410003286" "3565349705001643 / 562949953421312"]
  by (simp add: arith_ieee ilog2_def rne_def pow2_def inf_signed_def Let_def)

lemma eval_ints_24: "mul_with ieee (Fin (- (7130699410003285 / 1125899906842624))) (Fin (- (3565349705001643 / 562949953421312))) = Fin (1411284258229817 / 35184372088832)"
  using round_f64_eval [of "25423437037910601962911560397255 / 633825300114114700748351602688" "5" "- 47" "5645137032919268" "1411284258229817 / 35184372088832"]
  by (simp add: arith_ieee ilog2_def rne_def pow2_def inf_signed_def Let_def)

lemma eval_ints_25: "add_with ieee (Fin (6254999482459023 / 562949953421312)) (Fin (1411284258229817 / 35184372088832)) = Fin (901110862941753 / 17592186044416)"
  using round_f64_eval [of "28835547614136095 / 562949953421312" "5" "- 47" "7208886903534024" "901110862941753 / 17592186044416"]
  by (simp add: arith_ieee ilog2_def rne_def pow2_def inf_signed_def Let_def)

lemma eval_ints_26: "mul_with ieee (Fin (- (7130699410003285 / 1125899906842624))) (Fin (- (7130699410003285 / 1125899906842624))) = Fin (5645137032919267 / 140737488355328)"
  using round_f64_eval [of "50846874075821196795123710791225 / 1267650600228229401496703205376" "5" "- 47" "5645137032919267" "5645137032919267 / 140737488355328"]
  by (simp add: arith_ieee ilog2_def rne_def pow2_def inf_signed_def Let_def)

lemma eval_ints_27: "add_with ieee (Fin (6254999482459021 / 562949953421312)) (Fin (5645137032919267 / 140737488355328)) = Fin (3604443451767011 / 70368744177664)"
  using round_f64_eval [of "28835547614136089 / 562949953421312" "5" "- 47" "7208886903534022" "3604443451767011 / 70368744177664"]
  by (simp add: arith_ieee ilog2_def rne_def pow2_def inf_signed_def Let_def)

lemma eval_ints_28: "mul_with ieee (Fin (- (3565349705001643 / 562949953421312))) (Fin (- (3565349705001643 / 562949953421312))) = Fin (5645137032919269 / 140737488355328)"
  using round_f64_eval [of "12711718518955302764130632699449 / 316912650057057350374175801344" "5" "- 47" "5645137032919269" "5645137032919269 / 140737488355328"]
  by (simp add: arith_ieee ilog2_def rne_def pow2_def inf_signed_def Let_def)

lemma eval_ints_29: "add_with ieee (Fin (390937467653689 / 35184372088832)) (Fin (5645137032919269 / 140737488355328)) = Fin (7208886903534025 / 140737488355328)"
  using round_f64_eval [of "7208886903534025 / 140737488355328" "5" "- 47" "7208886903534025" "7208886903534025 / 140737488355328"]
  by (simp add: arith_ieee ilog2_def rne_def pow2_def inf_signed_def Let_def)

lemma eval_ints_30: "sub_with ieee (Fin 17) (Fin (8256599316845909 / 1125899906842624)) = Fin (2720924774869675 / 281474976710656)"
  using round_f64_eval [of "10883699099478699 / 1125899906842624" "3" "- 49" "5441849549739350" "2720924774869675 / 281474976710656"]
  by (simp add: arith_ieee ilog2_def rne_def pow2_def inf_signed_def Let_def)

lemma eval_ints_31: "sub_with ieee (Fin 20) (Fin (5817149518686891 / 562949953421312)) = Fin (5441849549739349 / 562949953421312)"
  using round_f64_eval [of "5441849549739349 / 562949953421312" "3" "- 49" "5441849549739349" "5441849549739349 / 562949953421312"]
  by (simp add: arith_ieee ilog2_def rne_def pow2_def inf_signed_def Let_def)

lemma eval_ints_32: "mul_with ieee (Fin (2720924774869675 / 281474976710656)) (Fin (5441849549739349 / 562949953421312)) = Fin (821946025741881 / 8796093022208)"
  using round_f64_eval [of "14806863260999180443901694341575 / 158456325028528675187087900672" "6" "- 46" "6575568205935048" "821946025741881 / 8796093022208"]
  by (simp add: arith_ieee ilog2_def rne_def pow2_def inf_signed_def Let_def)

lemma eval_ints_33: "add_with ieee (Fin (901110862941753 / 17592186044416)) (Fin (821946025741881 / 8796093022208)) = Fin (2545002914425515 / 17592186044416)"
  using round_f64_eval [of "2545002914425515 / 17592186044416" "7" "- 45" "5090005828851030" "2545002914425515 / 17592186044416"]
  by (simp add: arith_ieee ilog2_def rne_def pow2_def inf_signed_def Let_def)

lemma eval_ints_34: "mul_with ieee (Fin (2720924774869675 / 281474976710656)) (Fin (2720924774869675 / 281474976710656)) = Fin (6575568205935049 / 70368744177664)"
  using round_f64_eval [of "7403431630499591582413234605625 / 79228162514264337593543950336" "6" "- 46" "6575568205935049" "6575568205935049 / 70368744177664"]
  by (simp add: arith_ieee ilog2_def rne_def pow2_def inf_signed_def Let_def)

lemma eval_ints_35: "add_with ieee (Fin (3604443451767011 / 70368744177664)) (Fin (6575568205935049 / 70368744177664)) = Fin (2545002914425515 / 17592186044416)"
  using round_f64_eval [of "2545002914425515 / 17592186044416" "7" "- 45" "5090005828851030" "2545002914425515 / 17592186044416"]
  by (simp add: arith_ieee ilog2_def rne_def pow2_def inf_signed_def Let_def)

lemma eval_ints_36: "mul_with ieee (Fin (5441849549739349 / 562949953421312)) (Fin (5441849549739349 / 562949953421312)) = Fin (3287784102967523 / 35184372088832)"
  using round_f64_eval [of "29613726521998355445953838943801 / 316912650057057350374175801344" "6" "- 46" "6575568205935046" "3287784102967523 / 35184372088832"]
  by (simp add: arith_ieee ilog2_def rne_def pow2_def inf_signed_def Let_def)

lemma eval_ints_37: "add_with ieee (Fin (7208886903534025 / 140737488355328)) (Fin (3287784102967523 / 35184372088832)) = Fin (5090005828851029 / 35184372088832)"
  using round_f64_eval [of "20360023315404117 / 140737488355328" "7" "- 45" "5090005828851029" "5090005828851029 / 35184372088832"]
  by (simp add: arith_ieee ilog2_def rne_def pow2_def inf_signed_def Let_def)

lemma eval_ints_38: "mul_with ieee (Fin (2545002914425515 / 17592186044416)) (Fin (5090005828851029 / 35184372088832)) = Fin (2876383502241337 / 137438953472)"
  using round_f64_eval [of "12954079668868727907162051604935 / 618970019642690137449562112" "14" "- 38" "5752767004482674" "2876383502241337 / 137438953472"]
  by (simp add: arith_ieee ilog2_def rne_def pow2_def inf_signed_def Let_def)

lemma eval_ints_39: "sqrt_with ieee (Fin (2876383502241337 / 137438953472)) = Fin (5090005828851029 / 35184372088832)"
  using sqrt_f64_eval [of "2876383502241337 / 137438953472" "- 45" "25908159337737455118455410786304" "5090005828851029" "103632637350949823257296412839481 / 4" "5090005828851029" "5090005828851029 / 35184372088832"]
  by (simp add: sqrt_ieee ilog2_def pow2_def sqrt_floor_def sqrt_bits_numeral)

lemma eval_ints_40: "div_with ieee (Fin (2545002914425515 / 17592186044416)) (Fin (5090005828851029 / 35184372088832)) = Fin (4503599627370497 / 4503599627370496)"
  using round_f64_eval [of "5090005828851030 / 5090005828851029" "0" "- 52" "4503599627370497" "4503599627370497 / 4503599627370496"]
  by (simp add: div_ieee ilog2_def rne_def pow2_def inf_signed_def Let_def)

lemmas eval_ints = eval_ints_1 eval_ints_2 eval_ints_3 eval_ints_4 eval_ints_5 eval_ints_6 eval_ints_7 eval_ints_8 eval_ints_9 eval_ints_10 eval_ints_11 eval_ints_12 eval_ints_13 eval_ints_14 eval_ints_15 eval_ints_16 eval_ints_17 eval_ints_18 eval_ints_19 eval_ints_20 eval_ints_21 eval_ints_22 eval_ints_23 eval_ints_24 eval_ints_25 eval_ints_26 eval_ints_27 eval_ints_28 eval_ints_29 eval_ints_30 eval_ints_31 eval_ints_32 eval_ints_33 eval_ints_34 eval_ints_35 eval_ints_36 eval_ints_37 eval_ints_38 eval_ints_39 eval_ints_40

lemma corr_ints: "correlation_with ieee ints_points = Fin (4503599627370497 / 4503599627370496)"
  unfolding ints_points_def correlation_with_def corr_step_with_def Let_def
  by (simp add: eval_ints)

lemma eval_same_1: "rnd ieee (1 / 10) = Fin (3602879701896397 / 36028797018963968)"
  using round_f64_eval [of "1 / 10" "- 4" "- 56" "7205759403792794" "3602879701896397 / 36028797018963968"]
  by (simp add: rnd_ieee ilog2_def rne_def pow2_def inf_signed_def Let_def)

lemma eval_same_2: "add_with ieee (Fin 0) (Fin (3602879701896397 / 36028797018963968)) = Fin (3602879701896397 / 36028797018963968)"
  using round_f64_eval [of "3602879701896397 / 36028797018963968" "- 4" "- 56" "7205759403792794" "3602879701896397 / 36028797018963968"]
  by (simp add: arith_ieee ilog2_def rne_def pow2_def inf_signed_def Let_def)

lemma eval_same_3: "add_with ieee (Fin (3602879701896397 / 36028797018963968)) (Fin (3602879701896397 / 36028797018963968)) = Fin (3602879701896397 / 18014398509481984)"
  using round_f64_eval [of "3602879701896397 / 18014398509481984" "- 3" "- 55" "7205759403792794" "3602879701896397 / 18014398509481984"]
  by (simp add: arith_ieee ilog2_def rne_def pow2_def inf_signed_def Let_def)

lemma eval_same_4: "add_with ieee (Fin (3602879701896397 / 18014398509481984)) (Fin (3602879701896397 / 36028797018963968)) = Fin (1351079888211149 / 4503599627370496)"
  using round_f64_eval [of "10808639105689191 / 36028797018963968" "- 2" "- 54" "5404319552844596" "1351079888211149 / 4503599627370496"]
  by (simp add: arith_ieee ilog2_def rne_def pow2_def inf_signed_def Let_def)

lemma eval_same_5: "div_with ieee (Fin (1351079888211149 / 4503599627370496)) (Fin 3) = Fin (7205759403792795 / 72057594037927936)"
  using round_f64_eval [of "1351079888211149 / 13510798882111488" "- 4" "- 56" "7205759403792795" "7205759403792795 / 72057594037927936"]
  by (simp add: div_ieee ilog2_def rne_def pow2_def inf_signed_def Let_def)

lemma eval_same_6: "sub_with ieee (Fin (3602879701896397 / 36028797018963968)) (Fin (7205759403792795 / 72057594037927936)) = Fin (- (1 / 72057594037927936))"
  using round_f64_eval [of "- (1 / 72057594037927936)" "- 56" "- 108" "4503599627370496" "1 / 72057594037927936"]
  by (simp add: arith_ieee ilog2_def rne_def pow2_def inf_signed_def Let_def)

lemma eval_same_7: "mul_with ieee (Fin (- (1 / 72057594037927936))) (Fin (- (1 / 72057594037927936))) = Fin (1 / 5192296858534827628530496329220096)"
  using round_f64_eval [of "1 / 5192296858534827628530496329220096" "- 112" "- 164" "4503599627370496" "1 / 5192296858534827628530496329220096"]
  by (simp add: arith_ieee ilog2_def rne_def pow2_def inf_signed_def Let_def)

lemma eval_same_8: "add_with ieee (Fin 0) (Fin (1 / 5192296858534827628530496329220096)) = Fin (1 / 5192296858534827628530496329220096)"
  using round_f64_eval [of "1 / 5192296858534827628530496329220096" "- 112" "- 164" "4503599627370496" "1 / 5192296858534827628530496329220096"]
  by (simp add: arith_ieee ilog2_def rne_def pow2_def inf_signed_def Let_def)

lemma eval_same_9: "add_with ieee (Fin (1 / 5192296858534827628530496329220096)) (Fin (1 / 5192296858534827628530496329220096)) = Fin (1 / 2596148429267413814265248164610048)"
  using round_f64_eval [of "1 / 2596148429267413814265248164610048" "- 111" "- 163" "4503599627370496" "1 / 2596148429267413814265248164610048"]
  by (simp add: arith_ieee ilog2_def rne_def pow2_def inf_signed_def Let_def)

lemma eval_same_10: "add_with ieee (Fin (1 / 2596148429267413814265248164610048)) (Fin (1 / 5192296858534827628530496329220096)) = Fin (3 / 5192296858534827628530496329220096)"
  using round_f64_eval [of "3 / 5192296858534827628530496329220096" "- 111" "- 163" "6755399441055744" "3 / 5192296858534827628530496329220096"]
  by (simp add: arith_ieee ilog2_def rne_def pow2_def inf_signed_def Let_def)

lemma eval_same_11: "mul_with ieee (Fin (3 / 5192296858534827628530496329220096)) (Fin (3 / 5192296858534827628530496329220096)) = Fin (9 / 26959946667150639794667015087019630673637144422540572481103610249216)"
  using round_f64_eval [of "9 / 26959946667150639794667015087019630673637144422540572481103610249216" "- 221" "- 273" "5066549580791808" "9 / 26959946667150639794667015087019630673637144422540572481103610249216"]
  by (simp add: arith_ieee ilog2_def rne_def pow2_def inf_signed_def Let_def)

lemma eval_same_12: "sqrt_with ieee (Fin (9 / 26959946667150639794667015087019630673637144422540572481103610249216)) = Fin (3 / 5192296858534827628530496329220096)"
  using sqrt_f64_eval [of "9 / 26959946667150639794667015087019630673637144422540572481103610249216" "- 163" "45635421608216258453881315393536" "6755399441055744" "182541686432865060837123025797121 / 4" "6755399441055744" "3 / 5192296858534827628530496329220096"]
  by (simp add: sqrt_ieee ilog2_def pow2_def sqrt_floor_def sqrt_bits_numeral)

lemma eval_same_13: "div_with ieee (Fin (3 / 5192296858534827628530496329220096)) (Fin (3 / 5192296858534827628530496329220096)) = Fin 1"
  using round_f64_eval [of "1" "0" "- 52" "4503599627370496" "1"]
  by (simp add: div_ieee ilog2_def rne_def pow2_def inf_signed_def Let_def)

lemmas eval_same = eval_same_1 eval_same_2 eval_same_3 eval_same_4 eval_same_5 eval_same_6 eval_same_7 eval_same_8 eval_same_9 eval_same_10 eval_same_11 eval_same_12 eval_same_13

lemma corr_same: "correlation_with ieee same_points = Fin 1"
  unfolding same_points_def correlation_with_def corr_step_with_def Let_def
  by (simp add: eval_same)

lemma eval_flat_1: "rnd ieee 1 = Fin 1"
  using round_f64_eval [of "1" "0" "- 52" "4503599627370496" "1"]
  by (simp add: rnd_ieee ilog2_def rne_def pow2_def inf_signed_def Let_def)

lemma eval_flat_2: "add_with ieee (Fin 0) (Fin 1) = Fin 1"
  using round_f64_eval [of "1" "0" "- 52" "4503599627370496" "1"]
  by (simp add: arith_ieee ilog2_def rne_def pow2_def inf_signed_def Let_def)

lemma eval_flat_3: "rnd ieee 2 = Fin 2"
  using round_f64_eval [of "2" "1" "- 51" "4503599627370496" "2"]
  by (simp add: rnd_ieee ilog2_def rne_def pow2_def inf_signed_def Let_def)

lemma eval_flat_4: "add_with ieee (Fin 1) (Fin 2) = Fin 3"
  using round_f64_eval [of "3" "1" "- 51" "6755399441055744" "3"]
  by (simp add: arith_ieee ilog2_def rne_def pow2_def inf_signed_def Let_def)

lemma eval_flat_5: "rnd ieee 4 = Fin 4"
  using round_f64_eval [of "4" "2" "- 50" "4503599627370496" "4"]
  by (simp add: rnd_ieee ilog2_def rne_def pow2_def inf_signed_def Let_def)

lemma eval_flat_6: "add_with ieee (Fin 3) (Fin 4) = Fin 7"
  using round_f64_eval [of "7" "2" "- 50" "7881299347898368" "7"]
  by (simp add: arith_ieee ilog2_def rne_def pow2_def inf_signed_def Let_def)

lemma eval_flat_7: "div_with ieee (Fin 7) (Fin 3) = Fin (5254199565265579 / 2251799813685248)"
  using round_f64_eval [of "7 / 3" "1" "- 51" "5254199565265579" "5254199565265579 / 2251799813685248"]
  by (simp add: div_ieee ilog2_def rne_def pow2_def inf_signed_def Let_def)

lemma eval_flat_8: "rnd ieee (1 / 10) = Fin (3602879701896397 / 36028797018963968)"
  using round_f64_eval [of "1 / 10" "- 4" "- 56" "7205759403792794" "3602879701896397 / 36028797018963968"]
  by (simp add: rnd_ieee ilog2_def rne_def pow2_def inf_signed_def Let_def)

lemma eval_flat_9: "add_with ieee (Fin 0) (Fin (3602879701896397 / 36028797018963968)) = Fin (3602879701896397 / 36028797018963968)"
  using round_f64_eval [of "3602879701896397 / 36028797018963968" "- 4" "- 56" "7205759403792794" "3602879701896397 / 36028797018963968"]
  by (simp add: arith_ieee ilog2_def rne_def pow2_def inf_signed_def Let_def)

lemma eval_flat_10: "add_with ieee (Fin (3602879701896397 / 36028797018963968)) (Fin (3602879701896397 / 36028797018963968)) = Fin (3602879701896397 / 18014398509481984)"
  using round_f64_eval [of "3602879701896397 / 18014398509481984" "- 3" "- 55" "7205759403792794" "3602879701896397 / 18014398509481984"]
  by (simp add: arith_ieee ilog2_def rne_def pow2_def inf_signed_def Let_def)

lemma eval_flat_11: "add_with ieee (Fin (3602879701896397 / 18014398509481984)) (Fin (3602879701896397 / 36028797018963968)) = Fin (1351079888211149 / 4503599627370496)"
  using round_f64_eval [of "10808639105689191 / 36028797018963968" "- 2" "- 54" "5404319552844596" "1351079888211149 / 4503599627370496"]
  by (simp add: arith_ieee ilog2_def rne_def pow2_def inf_signed_def Let_def)

lemma eval_flat_12: "div_with ieee (Fin (1351079888211149 / 4503599627370496)) (Fin 3) = Fin (7205759403792795 / 72057594037927936)"
  using round_f64_eval [of "1351079888211149 / 13510798882111488" "- 4" "- 56" "7205759403792795" "7205759403792795 / 72057594037927936"]
  by (simp add: div_ieee ilog2_def rne_def pow2_def inf_signed_def Let_def)

lemma eval_flat_13: "sub_with ieee (Fin 1) (Fin (5254199565265579 / 2251799813685248)) = Fin (- (3002399751580331 / 2251799813685248))"
  using round_f64_eval [of "- (3002399751580331 / 2251799813685248)" "0" "- 52" "6004799503160662" "3002399751580331 / 2251799813685248"]
  by (simp add: arith_ieee ilog2_def rne_def pow2_def inf_signed_def Let_def)

lemma eval_flat_14: "sub_with ieee (Fin (3602879701896397 / 36028797018963968)) (Fin (7205759403792795 / 72057594037927936)) = Fin (- (1 / 72057594037927936))"
  using round_f64_eval [of "- (1 / 72057594037927936)" "- 56" "- 108" "4503599627370496" "1 / 72057594037927936"]
  by (simp add: arith_ieee ilog2_def rne_def pow2_def inf_signed_def Let_def)

lemma eval_flat_15: "mul_with ieee (Fin (- (3002399751580331 / 2251799813685248))) (Fin (- (1 / 72057594037927936))) = Fin (3002399751580331 / 162259276829213363391578010288128)"
  using round_f64_eval [of "3002399751580331 / 162259276829213363391578010288128" "- 56" "- 108" "6004799503160662" "3002399751580331 / 162259276829213363391578010288128"]
  by (simp add: arith_ieee ilog2_def rne_def pow2_def inf_signed_def Let_def)

lemma eval_flat_16: "add_with ieee (Fin 0) (Fin (3002399751580331 / 162259276829213363391578010288128)) = Fin (3002399751580331 / 162259276829213363391578010288128)"
  using round_f64_eval [of "3002399751580331 / 162259276829213363391578010288128" "- 56" "- 108" "6004799503160662" "3002399751580331 / 162259276829213363391578010288128"]
  by (simp add: arith_ieee ilog2_def rne_def pow2_def inf_signed_def Let_def)

lemma eval_flat_17: "mul_with ieee (Fin (- (3002399751580331 / 2251799813685248))) (Fin (- (3002399751580331 / 2251799813685248))) = Fin (4003199668773775 / 2251799813685248)"
  using round_f64_eval [of "9014404268289633301131946069561 / 5070602400912917605986812821504" "0" "- 52" "8006399337547550" "4003199668773775 / 2251799813685248"]
  by (simp add: arith_ieee ilog2_def rne_def pow2_def inf_signed_def Let_def)

lemma eval_flat_18: "add_with ieee (Fin 0) (Fin (4003199668773775 / 2251799813685248)) = Fin (4003199668773775 / 2251799813685248)"
  using round_f64_eval [of "4003199668773775 / 2251799813685248" "0" "- 52" "8006399337547550" "4003199668773775 / 2251799813685248"]
  by (simp add: arith_ieee ilog2_def rne_def pow2_def inf_signed_def Let_def)

lemma eval_flat_19: "mul_with ieee (Fin (- (1 / 72057594037927936))) (Fin (- (1 / 72057594037927936))) = Fin (1 / 5192296858534827628530496329220096)"
  using round_f64_eval [of "1 / 5192296858534827628530496329220096" "- 112" "- 164" "4503599627370496" "1 / 5192296858534827628530496329220096"]
  by (simp add: arith_ieee ilog2_def rne_def pow2_def inf_signed_def Let_def)

lemma eval_flat_20: "add_with ieee (Fin 0) (Fin (1 / 5192296858534827628530496329220096)) = Fin (1 / 5192296858534827628530496329220096)"
  using round_f64_eval [of "1 / 5192296858534827628530496329220096" "- 112" "- 164" "4503599627370496" "1 / 5192296858534827628530496329220096"]
  by (simp add: arith_ieee ilog2_def rne_def pow2_def inf_signed_def Let_def)

lemma eval_flat_21: "sub_with ieee (Fin 2) (Fin (5254199565265579 / 2251799813685248)) = Fin (- (750599937895083 / 2251799813685248))"
  using round_f64_eval [of "- (750599937895083 / 2251799813685248)" "- 2" "- 54" "6004799503160664" "750599937895083 / 2251799813685248"]
  by (simp add: arith_ieee ilog2_def rne_def pow2_def inf_signed_def Let_def)

lemma eval_flat_22: "mul_with ieee (Fin (- (750599937895083 / 2251799813685248))) (Fin (- (1 / 72057594037927936))) = Fin (750599937895083 / 162259276829213363391578010288128)"
  using round_f64_eval [of "750599937895083 / 162259276829213363391578010288128" "- 58" "- 110" "6004799503160664" "750599937895083 / 162259276829213363391578010288128"]
  by (simp add: arith_ieee ilog2_def rne_def pow2_def inf_signed_def Let_def)

lemma eval_flat_23: "add_with ieee (Fin (3002399751580331 / 162259276829213363391578010288128)) (Fin (750599937895083 / 162259276829213363391578010288128)) = Fin (1876499844737707 / 81129638414606681695789005144064)"
  using round_f64_eval [of "1876499844737707 / 81129638414606681695789005144064" "- 56" "- 108" "7505999378950828" "1876499844737707 / 81129638414606681695789005144064"]
  by (simp add: arith_ieee ilog2_def rne_def pow2_def inf_signed_def Let_def)

lemma eval_flat_24: "mul_with ieee (Fin (- (750599937895083 / 2251799813685248))) (Fin (- (750599937895083 / 2251799813685248))) = Fin (2001599834386889 / 18014398509481984)"
  using round_f64_eval [of "563400266768102456620715576889 / 5070602400912917605986812821504" "- 4" "- 56" "8006399337547556" "2001599834386889 / 18014398509481984"]
  by (simp add: arith_ieee ilog2_def rne_def pow2_def inf_signed_def Let_def)

lemma eval_flat_25: "add_with ieee (Fin (4003199668773775 / 2251799813685248)) (Fin (2001599834386889 / 18014398509481984)) = Fin (531674956009017 / 281474976710656)"
  using round_f64_eval [of "34027197184577089 / 18014398509481984" "0" "- 52" "8506799296144272" "531674956009017 / 281474976710656"]
  by (simp add: arith_ieee ilog2_def rne_def pow2_def inf_signed_def Let_def)

lemma eval_flat_26: "add_with ieee (Fin (1 / 5192296858534827628530496329220096)) (Fin (1 / 5192296858534827628530496329220096)) = Fin (1 / 2596148429267413814265248164610048)"
  using round_f64_eval [of "1 / 2596148429267413814265248164610048" "- 111" "- 163" "4503599627370496" "1 / 2596148429267413814265248164610048"]
  by (simp add: arith_ieee ilog2_def rne_def pow2_def inf_signed_def Let_def)

lemma eval_flat_27: "sub_with ieee (Fin 4) (Fin (5254199565265579 / 2251799813685248)) = Fin (3752999689475413 / 2251799813685248)"
  using round_f64_eval [of "3752999689475413 / 2251799813685248" "0" "- 52" "7505999378950826" "3752999689475413 / 2251799813685248"]
  by (simp add: arith_ieee ilog2_def rne_def pow2_def inf_signed_def Let_def)

lemma eval_flat_28: "mul_with ieee (Fin (3752999689475413 / 2251799813685248)) (Fin (- (1 / 72057594037927936))) = Fin (- (3752999689475413 / 162259276829213363391578010288128))"
  using round_f64_eval [of "- (3752999689475413 / 162259276829213363391578010288128)" "- 56" "- 108" "7505999378950826" "3752999689475413 / 162259276829213363391578010288128"]
  by (simp add: arith_ieee ilog2_def rne_def pow2_def inf_signed_def Let_def)

lemma eval_flat_29: "add_with ieee (Fin (1876499844737707 / 81129638414606681695789005144064)) (Fin (- (3752999689475413 / 162259276829213363391578010288128))) = Fin (1 / 162259276829213363391578010288128)"
  using round_f64_eval [of "1 / 162259276829213363391578010288128" "- 107" "- 159" "4503599627370496" "1 / 162259276829213363391578010288128"]
  by (simp add: arith_ieee ilog2_def rne_def pow2_def inf_signed_def Let_def)

lemma eval_flat_30: "mul_with ieee (Fin (3752999689475413 / 2251799813685248)) (Fin (3752999689475413 / 2251799813685248)) = Fin (6254999482459021 / 2251799813685248)"
  using round_f64_eval [of "14085006669202546403519131520569 / 5070602400912917605986812821504" "1" "- 51" "6254999482459021" "6254999482459021 / 2251799813685248"]
  by (simp add: arith_ieee ilog2_def rne_def pow2_def inf_signed_def Let_def)

lemma eval_flat_31: "add_with ieee (Fin (531674956009017 / 281474976710656)) (Fin (6254999482459021 / 2251799813685248)) = Fin (2627099782632789 / 562949953421312)"
  using round_f64_eval [of "10508399130531157 / 2251799813685248" "2" "- 50" "5254199565265578" "2627099782632789 / 562949953421312"]
  by (simp add: arith_ieee ilog2_def rne_def pow2_def inf_signed_def Let_def)

lemma eval_flat_32: "add_with ieee (Fin (1 / 2596148429267413814265248164610048)) (Fin (1 / 5192296858534827628530496329220096)) = Fin (3 / 5192296858534827628530496329220096)"
  using round_f64_eval [of "3 / 5192296858534827628530496329220096" "- 111" "- 163" "6755399441055744" "3 / 5192296858534827628530496329220096"]
  by (simp add: arith_ieee ilog2_def rne_def pow2_def inf_signed_def Let_def)

lemma eval_flat_33: "mul_with ieee (Fin (2627099782632789 / 562949953421312)) (Fin (3 / 5192296858534827628530496329220096)) = Fin (7881299347898367 / 2923003274661805836407369665432566039311865085952)"
  using round_f64_eval [of "7881299347898367 / 2923003274661805836407369665432566039311865085952" "- 109" "- 161" "7881299347898367" "7881299347898367 / 2923003274661805836407369665432566039311865085952"]
  by (simp add: arith_ieee ilog2_def rne_def pow2_def inf_signed_def Let_def)

lemma eval_flat_34: "sqrt_with ieee (Fin (7881299347898367 / 2923003274661805836407369665432566039311865085952)) = Fin (8425463406411593 / 162259276829213363391578010288128)"
  using sqrt_f64_eval [of "7881299347898367 / 2923003274661805836407369665432566039311865085952" "- 107" "70988433612780837476616124760064" "8425463406411592" "283953734451123343720150073544225 / 4" "8425463406411593" "8425463406411593 / 162259276829213363391578010288128"]
  by (simp add: sqrt_ieee ilog2_def pow2_def sqrt_floor_def sqrt_bits_numeral)

lemma eval_flat_35: "div_with ieee (Fin (1 / 162259276829213363391578010288128)) (Fin (8425463406411593 / 162259276829213363391578010288128)) = Fin (2407275258974741 / 20282409603651670423947251286016)"
  using round_f64_eval [of "1 / 8425463406411593" "- 53" "- 105" "4814550517949482" "2407275258974741 / 20282409603651670423947251286016"]
  by (simp add: div_ieee ilog2_def rne_def pow2_def inf_signed_def Let_def)

lemmas eval_flat = eval_flat_1 eval_flat_2 eval_flat_3 eval_flat_4 eval_flat_5 eval_flat_6 eval_flat_7 eval_flat_8 eval_flat_9 eval_flat_10 eval_flat_11 eval_flat_12 eval_flat_13 eval_flat_14 eval_flat_15 eval_flat_16 eval_flat_17 eval_flat_18 eval_flat_19 eval_flat_20 eval_flat_21 eval_flat_22 eval_flat_23 eval_flat_24 eval_flat_25 eval_flat_26 eval_flat_27 eval_flat_28 eval_flat_29 eval_flat_30 eval_flat_31 eval_flat_32 eval_flat_33 eval_flat_34 eval_flat_35

lemma corr_flat: "correlation_with ieee flat_points = Fin (2407275258974741 / 20282409603651670423947251286016)"
  unfolding flat_points_def correlation_with_def corr_step_with_def Let_def
  by (simp add: eval_flat)

lemma eval_huge_1: "rnd ieee 0 = Fin 0"
  by (simp add: rnd_ieee round_f64_def)

lemma eval_huge_2: "add_with ieee (Fin 0) (Fin 0) = Fin 0"
  by (simp add: arith_ieee round_f64_def)

lemma eval_huge_3: "rnd ieee 100000000000000000000000000000000000000000000000000000000000000000000000000000000000000000000000000000000000000000000000000000000000000000000000000000000000000000000000000000000000000000000000000000000 = Fin 99999999999999996973312221251036165947450327545502362648241750950346848435554075534196338404706251868027512415973882408182135734368278484639385041047239877871023591066789981811181813306167128854888448"
  using round_f64_eval [of "100000000000000000000000000000000000000000000000000000000000000000000000000000000000000000000000000000000000000000000000000000000000000000000000000000000000000000000000000000000000000000000000000000000" "664" "612" "5883593420661338" "99999999999999996973312221251036165947450327545502362648241750950346848435554075534196338404706251868027512415973882408182135734368278484639385041047239877871023591066789981811181813306167128854888448"]
  by (simp add: rnd_ieee ilog2_def rne_def pow2_def inf_signed_def Let_def)

lemma eval_huge_4: "add_with ieee (Fin 0) (Fin 99999999999999996973312221251036165947450327545502362648241750950346848435554075534196338404706251868027512415973882408182135734368278484639385041047239877871023591066789981811181813306167128854888448) = Fin 99999999999999996973312221251036165947450327545502362648241750950346848435554075534196338404706251868027512415973882408182135734368278484639385041047239877871023591066789981811181813306167128854888448"
  using round_f64_eval [of "99999999999999996973312221251036165947450327545502362648241750950346848435554075534196338404706251868027512415973882408182135734368278484639385041047239877871023591066789981811181813306167128854888448" "664" "612" "5883593420661338" "99999999999999996973312221251036165947450327545502362648241750950346848435554075534196338404706251868027512415973882408182135734368278484639385041047239877871023591066789981811181813306167128854888448"]
  by (simp add: arith_ieee ilog2_def rne_def pow2_def inf_signed_def Let_def)

lemma eval_huge_5: "div_with ieee (Fin 99999999999999996973312221251036165947450327545502362648241750950346848435554075534196338404706251868027512415973882408182135734368278484639385041047239877871023591066789981811181813306167128854888448) (Fin 2) = Fin 49999999999999998486656110625518082973725163772751181324120875475173424217777037767098169202353125934013756207986941204091067867184139242319692520523619938935511795533394990905590906653083564427444224"
  using round_f64_eval [of "49999999999999998486656110625518082973725163772751181324120875475173424217777037767098169202353125934013756207986941204091067867184139242319692520523619938935511795533394990905590906653083564427444224" "663" "611" "5883593420661338" "49999999999999998486656110625518082973725163772751181324120875475173424217777037767098169202353125934013756207986941204091067867184139242319692520523619938935511795533394990905590906653083564427444224"]
  by (simp add: div_ieee ilog2_def rne_def pow2_def inf_signed_def Let_def)

lemma eval_huge_6: "rnd ieee 5 = Fin 5"
  using round_f64_eval [of "5" "2" "- 50" "5629499534213120" "5"]
  by (simp add: rnd_ieee ilog2_def rne_def pow2_def inf_signed_def Let_def)

lemma eval_huge_7: "add_with ieee (Fin 0) (Fin 5) = Fin 5"
  using round_f64_eval [of "5" "2" "- 50" "5629499534213120" "5"]
  by (simp add: arith_ieee ilog2_def rne_def pow2_def inf_signed_def Let_def)

lemma eval_huge_8: "add_with ieee (Fin 5) (Fin 5) = Fin 10"
  using round_f64_eval [of "10" "3" "- 49" "5629499534213120" "10"]
  by (simp add: arith_ieee ilog2_def rne_def pow2_def inf_signed_def Let_def)

lemma eval_huge_9: "div_with ieee (Fin 10) (Fin 2) = Fin 5"
  using round_f64_eval [of "5" "2" "- 50" "5629499534213120" "5"]
  by (simp add: div_ieee ilog2_def rne_def pow2_def inf_signed_def Let_def)

lemma eval_huge_10: "sub_with ieee (Fin 0) (Fin 49999999999999998486656110625518082973725163772751181324120875475173424217777037767098169202353125934013756207986941204091067867184139242319692520523619938935511795533394990905590906653083564427444224) = Fin (- 49999999999999998486656110625518082973725163772751181324120875475173424217777037767098169202353125934013756207986941204091067867184139242319692520523619938935511795533394990905590906653083564427444224)"
  using round_f64_eval [of "- 49999999999999998486656110625518082973725163772751181324120875475173424217777037767098169202353125934013756207986941204091067867184139242319692520523619938935511795533394990905590906653083564427444224" "663" "611" "5883593420661338" "49999999999999998486656110625518082973725163772751181324120875475173424217777037767098169202353125934013756207986941204091067867184139242319692520523619938935511795533394990905590906653083564427444224"]
  by (simp add: arith_ieee ilog2_def rne_def pow2_def inf_signed_def Let_def)

lemma eval_huge_11: "sub_with ieee (Fin 5) (Fin 5) = Fin 0"
  by (simp add: arith_ieee round_f64_def)

lemma eval_huge_12: "mul_with ieee (Fin (- 49999999999999998486656110625518082973725163772751181324120875475173424217777037767098169202353125934013756207986941204091067867184139242319692520523619938935511795533394990905590906653083564427444224)) (Fin 0) = Fin 0"
  by (simp add: arith_ieee round_f64_def)

lemma eval_huge_13: "mul_with ieee (Fin (- 49999999999999998486656110625518082973725163772751181324120875475173424217777037767098169202353125934013756207986941204091067867184139242319692520523619938935511795533394990905590906653083564427444224)) (Fin (- 49999999999999998486656110625518082973725163772751181324120875475173424217777037767098169202353125934013756207986941204091067867184139242319692520523619938935511795533394990905590906653083564427444224)) = PInf"
  using round_f64_overflow [of "2499999999999999848665611062551810587582243884359280618084945405156763552171930907568450770004830332635576395986688223308312201755819882136080403880540062232281166536024067390383286390291184622495849405273080552034657748681303436837797596274154688814019316868146617054434117170902849605721030433153167599173825973606486306082788620869490849226361440428983359880005205710834278509578624977236630962176" "1326" "1274" "7686445155841023" "2499999999999999922887623390486134393910486663171887463895102975942011602845898275199881327672452365296106266748590362402477148110993131398526507831837483948274551132501063747136586254681129679732594089967181798330570852254675014904695202271100801938058106832237601189828623322026935798818078683269745147492099962218550616908493552047621515644997771961057761090868477129957151204220297972226333868032"]
  by (simp add: arith_ieee ilog2_def rne_def pow2_def inf_signed_def Let_def)

lemma eval_huge_14: "add_with ieee (Fin 0) PInf = PInf"
  by (simp add: special_ieee)

lemma eval_huge_15: "mul_with ieee (Fin 0) (Fin 0) = Fin 0"
  by (simp add: arith_ieee round_f64_def)

lemma eval_huge_16: "sub_with ieee (Fin 99999999999999996973312221251036165947450327545502362648241750950346848435554075534196338404706251868027512415973882408182135734368278484639385041047239877871023591066789981811181813306167128854888448) (Fin 49999999999999998486656110625518082973725163772751181324120875475173424217777037767098169202353125934013756207986941204091067867184139242319692520523619938935511795533394990905590906653083564427444224) = Fin 49999999999999998486656110625518082973725163772751181324120875475173424217777037767098169202353125934013756207986941204091067867184139242319692520523619938935511795533394990905590906653083564427444224"
  using round_f64_eval [of "49999999999999998486656110625518082973725163772751181324120875475173424217777037767098169202353125934013756207986941204091067867184139242319692520523619938935511795533394990905590906653083564427444224" "663" "611" "5883593420661338" "49999999999999998486656110625518082973725163772751181324120875475173424217777037767098169202353125934013756207986941204091067867184139242319692520523619938935511795533394990905590906653083564427444224"]
  by (simp add: arith_ieee ilog2_def rne_def pow2_def inf_signed_def Let_def)

lemma eval_huge_17: "mul_with ieee (Fin 49999999999999998486656110625518082973725163772751181324120875475173424217777037767098169202353125934013756207986941204091067867184139242319692520523619938935511795533394990905590906653083564427444224) (Fin 0) = Fin 0"
  by (simp add: arith_ieee round_f64_def)

lemma eval_huge_18: "mul_with ieee (Fin 49999999999999998486656110625518082973725163772751181324120875475173424217777037767098169202353125934013756207986941204091067867184139242319692520523619938935511795533394990905590906653083564427444224) (Fin 49999999999999998486656110625518082973725163772751181324120875475173424217777037767098169202353125934013756207986941204091067867184139242319692520523619938935511795533394990905590906653083564427444224) = PInf"
  using round_f64_overflow [of "2499999999999999848665611062551810587582243884359280618084945405156763552171930907568450770004830332635576395986688223308312201755819882136080403880540062232281166536024067390383286390291184622495849405273080552034657748681303436837797596274154688814019316868146617054434117170902849605721030433153167599173825973606486306082788620869490849226361440428983359880005205710834278509578624977236630962176" "1326" "1274" "7686445155841023" "2499999999999999922887623390486134393910486663171887463895102975942011602845898275199881327672452365296106266748590362402477148110993131398526507831837483948274551132501063747136586254681129679732594089967181798330570852254675014904695202271100801938058106832237601189828623322026935798818078683269745147492099962218550616908493552047621515644997771961057761090868477129957151204220297972226333868032"]
  by (simp add: arith_ieee ilog2_def rne_def pow2_def inf_signed_def Let_def)

lemma eval_huge_19: "add_with ieee PInf PInf = PInf"
  by (simp add: special_ieee)

lemma eval_huge_20: "mul_with ieee PInf (Fin 0) = NaN"
  by (simp add: special_ieee)

lemma eval_huge_21: "sqrt_with ieee NaN = NaN"
  by (simp add: special_ieee)

lemma eval_huge_22: "div_with ieee (Fin 0) NaN = NaN"
  by (simp add: special_ieee)

lemmas eval_huge = eval_huge_1 eval_huge_2 eval_huge_3 eval_huge_4 eval_huge_5 eval_huge_6 eval_huge_7 eval_huge_8 eval_huge_9 eval_huge_10 eval_huge_11 eval_huge_12 eval_huge_13 eval_huge_14 eval_huge_15 eval_huge_16 eval_huge_17 eval_huge_18 eval_huge_19 eval_huge_20 eval_huge_21 eval_huge_22

lemma corr_huge: "correlation_with ieee huge_points = NaN"
  unfolding huge_points_def correlation_with_def corr_step_with_def Let_def
  by (simp add: eval_huge)

text \<open>
  Claim C1 as written fails in the arithmetic of the program. The three points (1, 4)
  and twice (1 + 2^-50, 4 + 2^-50) have both sums of squared deviations non-zero and
  the coefficient 1; in doubles the function returns 0.4264... on them. The two points
  (0, 0) and (2^-269, 2^-269) also have the coefficient 1; in doubles the product of
  line 29 underflows to zero and the function returns 0.
\<close>

theorem correlation_ieee_not_pearson:
  "2 \<le> length near_points
   \<and> sum_dx2 near_points \<noteq> 0 \<and> sum_dy2 near_points \<noteq> 0
   \<and> pearson near_points = 1
   \<and> correlation_with ieee near_points = Fin (7681365333873999 / 18014398509481984)
   \<and> 2 \<le> length tiny_points
   \<and> sum_dx2 tiny_points \<noteq> 0 \<and> sum_dy2 tiny_points \<noteq> 0
   \<and> pearson tiny_points = 1
   \<and> correlation_with ieee tiny_points = Fin 0"
proof -
  have near: "\<forall>p\<in>set near_points. p_y p = 1 * p_x p + 3"
    "\<exists>p\<in>set near_points. \<exists>q\<in>set near_points. p_x p \<noteq> p_x q"
    by (auto simp add: near_points_def)
  have tiny: "\<forall>p\<in>set tiny_points. p_y p = 1 * p_x p + 0"
    "\<exists>p\<in>set tiny_points. \<exists>q\<in>set tiny_points. p_x p \<noteq> p_x q"
    by (auto simp add: tiny_points_def)
  have one: "(1::real) \<noteq> 0" by simp
  note n = pearson_on_line [OF near one]
  note t = pearson_on_line [OF tiny one]
  have "2 \<le> length near_points" "2 \<le> length tiny_points"
    by (simp_all add: near_points_def tiny_points_def)
  moreover from n(4) t(4) have "pearson near_points = 1" "pearson tiny_points = 1"
    by simp_all
  moreover note n(2,3) t(2,3) corr_near corr_tiny
  ultimately show ?thesis by (simp only: simp_thms)
qed

text \<open>
  Claim C2 fails in the arithmetic of the program. Three copies of the point
  (0.1, 0.1) share their x and their y, and the function returns 1 on them: the mean of
  three times 0.1 is computed as 0.10000000000000002, so the deviations are not zero and
  the guard of line 29 does not apply. The points (1, 0.1), (2, 0.1), (4, 0.1) share
  their y, and the function returns 1.18...e-16 on them. On (0, 5) and (1e200, 5) the
  sum of squared deviations of y is computed as zero, that of x overflows, their product
  is \<^verbatim>\<open>NaN\<close>, and the function returns \<^verbatim>\<open>NaN\<close>.
\<close>

theorem correlation_ieee_degenerate:
  "p_x (same_points ! 0) = 0.1 \<and> p_x (same_points ! 1) = 0.1 \<and> p_x (same_points ! 2) = 0.1
   \<and> length same_points = 3 \<and> sum_dx2 same_points = 0
   \<and> correlation_with ieee same_points = Fin 1
   \<and> p_y (flat_points ! 0) = 0.1 \<and> p_y (flat_points ! 1) = 0.1 \<and> p_y (flat_points ! 2) = 0.1
   \<and> length flat_points = 3 \<and> sum_dy2 flat_points = 0
   \<and> correlation_with ieee flat_points =
        Fin (2407275258974741 / 20282409603651670423947251286016)
   \<and> p_y (huge_points ! 0) = 5 \<and> p_y (huge_points ! 1) = 5
   \<and> length huge_points = 2 \<and> sum_dy2 huge_points = 0
   \<and> correlation_with ieee huge_points = NaN"
proof -
  have "sum_dx2 same_points = 0"
    by (rule same_x_sum_dx2 [where c = "1 / 10"]) (simp add: same_points_def)
  moreover have "sum_dy2 flat_points = 0"
    by (rule same_y_sum_dy2 [where c = "1 / 10"]) (simp add: flat_points_def)
  moreover have "sum_dy2 huge_points = 0"
    by (rule same_y_sum_dy2 [where c = 5]) (simp add: huge_points_def)
  moreover have "p_x (same_points ! 0) = 0.1 \<and> p_x (same_points ! 1) = 0.1
      \<and> p_x (same_points ! 2) = 0.1 \<and> length same_points = 3"
    by (simp add: same_points_def)
  moreover have "p_y (flat_points ! 0) = 0.1 \<and> p_y (flat_points ! 1) = 0.1
      \<and> p_y (flat_points ! 2) = 0.1 \<and> length flat_points = 3"
    by (simp add: flat_points_def)
  moreover have "p_y (huge_points ! 0) = 5 \<and> p_y (huge_points ! 1) = 5
      \<and> length huge_points = 2"
    by (simp add: huge_points_def)
  moreover note corr_same corr_flat corr_huge
  ultimately show ?thesis by (simp only: simp_thms)
qed

text \<open>
  Claim C3 as written fails in the arithmetic of the program. The points (4, 7),
  (1, 4), (17, 20) lie on y = 1 * x + 3, and the function returns 1 + 2^-52 on them.
  The points (1, 4) and twice (1 + 2^-50, 4 + 2^-50) lie on the same line, and the
  function returns 0.4264... on them. On the single point (1, 1), which lies on
  y = 1 * x + 0, it returns 0 by the guard of line 15.
\<close>

theorem correlation_ieee_on_line:
  "length ints_points = 3
   \<and> p_y (ints_points ! 0) = 1 * p_x (ints_points ! 0) + 3
   \<and> p_y (ints_points ! 1) = 1 * p_x (ints_points ! 1) + 3
   \<and> p_y (ints_points ! 2) = 1 * p_x (ints_points ! 2) + 3
   \<and> p_x (ints_points ! 0) \<noteq> p_x (ints_points ! 1)
   \<and> correlation_with ieee ints_points = Fin (4503599627370497 / 4503599627370496)
   \<and> length near_points = 3
   \<and> p_y (near_points ! 0) = 1 * p_x (near_points ! 0) + 3
   \<and> p_y (near_points ! 1) = 1 * p_x (near_points ! 1) + 3
   \<and> p_y (near_points ! 2) = 1 * p_x (near_points ! 2) + 3
   \<and> p_x (near_points ! 0) \<noteq> p_x (near_points ! 1)
   \<and> correlation_with ieee near_points = Fin (7681365333873999 / 18014398509481984)
   \<and> p_y \<lparr>p_id = ''a'', p_x = 1, p_y = 1\<rparr> = 1 * p_x \<lparr>p_id = ''a'', p_x = 1, p_y = 1\<rparr> + 0
   \<and> correlation_with ieee [\<lparr>p_id = ''a'', p_x = 1, p_y = 1\<rparr>] = Fin 0"
proof -
  have "length ints_points = 3
      \<and> p_y (ints_points ! 0) = 1 * p_x (ints_points ! 0) + 3
      \<and> p_y (ints_points ! 1) = 1 * p_x (ints_points ! 1) + 3
      \<and> p_y (ints_points ! 2) = 1 * p_x (ints_points ! 2) + 3
      \<and> p_x (ints_points ! 0) \<noteq> p_x (ints_points ! 1)"
    by (simp add: ints_points_def)
  moreover have "length near_points = 3
      \<and> p_y (near_points ! 0) = 1 * p_x (near_points ! 0) + 3
      \<and> p_y (near_points ! 1) = 1 * p_x (near_points ! 1) + 3
      \<and> p_y (near_points ! 2) = 1 * p_x (near_points ! 2) + 3
      \<and> p_x (near_points ! 0) \<noteq> p_x (near_points ! 1)"
    by (simp add: near_points_def)
  moreover have "correlation_with ieee [\<lparr>p_id = ''a'', p_x = 1, p_y = 1\<rparr>] = Fin 0"
    by (simp add: correlation_with_def)
  moreover note corr_ints corr_near
  ultimately show ?thesis by simp
qed

section \<open>Properties of the identifiers\<close>

lemma digit_cases:
  assumes "d < 10"
  shows "d = 0 \<or> d = 1 \<or> d = 2 \<or> d = 3 \<or> d = 4 \<or> d = 5 \<or> d = 6 \<or> d = 7 \<or> d = 8 \<or> d = (9::nat)"
  using assms by arith

lemma digit_val_digit: "d < 10 \<Longrightarrow> digit_val (digit d) = d"
  using digit_cases [of d] by (auto simp add: digit_def digit_val_def)

lemma digit_not_dash: "d < 10 \<Longrightarrow> digit d \<noteq> CHR ''-''"
  using digit_cases [of d] by (auto simp add: digit_def)

lemma dec_val_snoc: "dec_val (s @ [c]) = 10 * dec_val s + digit_val c"
  by (simp add: dec_val_def)

lemma dec_val_dec: "dec_val (dec n) = n"
proof (induction n rule: dec.induct)
  case (1 n)
  show ?case
  proof (cases "n < 10")
    case True
    then show ?thesis by (simp add: dec.simps [of n] dec_val_def digit_val_digit)
  next
    case False
    with "1" have "dec_val (dec (n div 10)) = n div 10" by simp
    with False show ?thesis
      by (simp add: dec.simps [of n] dec_val_snoc digit_val_digit)
  qed
qed

lemma dec_inj: "dec m = dec n \<Longrightarrow> m = n"
  by (metis dec_val_dec)

lemma dec_no_dash: "CHR ''-'' \<notin> set (dec n)"
proof (induction n rule: dec.induct)
  case (1 n)
  show ?case
  proof (cases "n < 10")
    case True
    then show ?thesis using digit_not_dash [of n] by (simp add: dec.simps [of n])
  next
    case False
    with "1" have "CHR ''-'' \<notin> set (dec (n div 10))" by simp
    with False show ?thesis using digit_not_dash [of "n mod 10"]
      by (simp add: dec.simps [of n])
  qed
qed

lemma id_eq_iff:
  "dec t @ ''-'' @ dec i = dec t' @ ''-'' @ dec i' \<longleftrightarrow> t = t' \<and> i = i'"
proof -
  have "dec t @ CHR ''-'' # dec i = dec t' @ CHR ''-'' # dec i' \<longleftrightarrow> dec t = dec t' \<and> dec i = dec i'"
    by (rule append_Cons_eq_iff) (rule dec_no_dash)+
  then show ?thesis by (auto dest: dec_inj)
qed

lemma randomLinear_ids:
  "map p_id (randomLinear slope noise now random) = map (\<lambda>i. dec (now i) @ ''-'' @ dec i) [0..<20]"
  by (simp add: randomLinear_def Let_def comp_def)

lemma randomLinear_nth:
  "i < 20 \<Longrightarrow> randomLinear slope noise now random ! i =
     \<lparr>p_id = dec (now i) @ ''-'' @ dec i, p_x = real i + 1,
      p_y = slope * (real i + 1) + (random i - 0.5) * noise * 10 + 10\<rparr>"
  by (simp add: randomLinear_def Let_def)

lemma randomLinear_length: "length (randomLinear slope noise now random) = 20"
  by (simp add: randomLinear_def)

section \<open>Properties of the drag update\<close>

text \<open>
  Claim C7. The drag update keeps the length, the order and the ids of the dataset; at
  each index it yields the point with the new coordinates when the id matches and the old
  point otherwise; when the ids are distinct it changes exactly the one matching index;
  and when no point has the id, the dataset is returned as it was.
\<close>

theorem dragPoint_frame:
  "length (dragPoint payload_id xVal yVal pts) = length pts
   \<and> map p_id (dragPoint payload_id xVal yVal pts) = map p_id pts
   \<and> (\<forall>i<length pts. dragPoint payload_id xVal yVal pts ! i =
         (if p_id (pts ! i) = payload_id then \<lparr>p_id = payload_id, p_x = xVal, p_y = yVal\<rparr>
          else pts ! i))
   \<and> (\<forall>i<length pts. distinct (map p_id pts) \<and> p_id (pts ! i) = payload_id \<longrightarrow>
         dragPoint payload_id xVal yVal pts =
           pts[i := \<lparr>p_id = payload_id, p_x = xVal, p_y = yVal\<rparr>])
   \<and> (payload_id \<notin> set (map p_id pts) \<longrightarrow> dragPoint payload_id xVal yVal pts = pts)"
proof (intro conjI allI impI)
  show "length (dragPoint payload_id xVal yVal pts) = length pts"
    by (simp add: dragPoint_def)
  show "map p_id (dragPoint payload_id xVal yVal pts) = map p_id pts"
    by (simp add: dragPoint_def comp_def)
  show nth: "dragPoint payload_id xVal yVal pts ! i =
      (if p_id (pts ! i) = payload_id then \<lparr>p_id = payload_id, p_x = xVal, p_y = yVal\<rparr>
       else pts ! i)" if "i < length pts" for i
    using that by (simp add: dragPoint_def)
  show "dragPoint payload_id xVal yVal pts = pts[i := \<lparr>p_id = payload_id, p_x = xVal, p_y = yVal\<rparr>]"
    if i: "i < length pts" and h: "distinct (map p_id pts) \<and> p_id (pts ! i) = payload_id" for i
  proof (rule nth_equalityI)
    show "length (dragPoint payload_id xVal yVal pts) =
        length (pts[i := \<lparr>p_id = payload_id, p_x = xVal, p_y = yVal\<rparr>])"
      by (simp add: dragPoint_def)
  next
    fix j assume "j < length (dragPoint payload_id xVal yVal pts)"
    then have j: "j < length pts" by (simp add: dragPoint_def)
    show "dragPoint payload_id xVal yVal pts ! j =
        pts[i := \<lparr>p_id = payload_id, p_x = xVal, p_y = yVal\<rparr>] ! j"
    proof (cases "j = i")
      case True
      with i h show ?thesis by (simp add: nth)
    next
      case False
      from h have "distinct (map p_id pts)" by simp
      with i j False have "map p_id pts ! j \<noteq> map p_id pts ! i"
        by (simp add: nth_eq_iff_index_eq del: nth_map)
      with i j h have "p_id (pts ! j) \<noteq> payload_id" by simp
      with j False show ?thesis by (simp add: nth)
    qed
  qed
  show "dragPoint payload_id xVal yVal pts = pts" if "payload_id \<notin> set (map p_id pts)"
    unfolding dragPoint_def using that by (intro map_idI) auto
qed

text \<open>
  C7 on three points: dragging the middle one, and dragging an id that is absent.
\<close>

theorem dragPoint_frame_witness:
  "dragPoint ''A-1'' 3 4 [\<lparr>p_id = ''A-0'', p_x = 10, p_y = 8\<rparr>, \<lparr>p_id = ''A-1'', p_x = 8, p_y = 7\<rparr>,
       \<lparr>p_id = ''A-2'', p_x = 13, p_y = 7\<rparr>]
     = [\<lparr>p_id = ''A-0'', p_x = 10, p_y = 8\<rparr>, \<lparr>p_id = ''A-1'', p_x = 3, p_y = 4\<rparr>,
       \<lparr>p_id = ''A-2'', p_x = 13, p_y = 7\<rparr>]
   \<and> dragPoint ''B-1'' 3 4 [\<lparr>p_id = ''A-0'', p_x = 10, p_y = 8\<rparr>, \<lparr>p_id = ''A-1'', p_x = 8, p_y = 7\<rparr>,
       \<lparr>p_id = ''A-2'', p_x = 13, p_y = 7\<rparr>]
     = [\<lparr>p_id = ''A-0'', p_x = 10, p_y = 8\<rparr>, \<lparr>p_id = ''A-1'', p_x = 8, p_y = 7\<rparr>,
       \<lparr>p_id = ''A-2'', p_x = 13, p_y = 7\<rparr>]"
proof -
  let ?pts = "[\<lparr>p_id = ''A-0'', p_x = 10, p_y = 8\<rparr>, \<lparr>p_id = ''A-1'', p_x = 8, p_y = 7\<rparr>,
       \<lparr>p_id = ''A-2'', p_x = 13, p_y = 7\<rparr>]"
  have a: "(1::nat) < length ?pts" "distinct (map p_id ?pts) \<and> p_id (?pts ! 1) = ''A-1''"
    by simp_all
  have b: "''B-1'' \<notin> set (map p_id ?pts)" by simp
  from dragPoint_frame [of "''A-1''" 3 4 ?pts] a
  have "dragPoint ''A-1'' 3 4 ?pts = ?pts[1 := \<lparr>p_id = ''A-1'', p_x = 3, p_y = 4\<rparr>]"
    by blast
  moreover from dragPoint_frame [of "''B-1''" 3 4 ?pts] b
  have "dragPoint ''B-1'' 3 4 ?pts = ?pts" by blast
  ultimately show ?thesis by simp
qed

section \<open>Properties of the generator\<close>

text \<open>
  Claim C4. For every target, sign, clock and random source with draws in the interval
  from 0 to 1, \<open>randomLinearWithCorrelation\<close> returns 20 points; their x-coordinates
  are 1 to 20 in index order; and the y-coordinate at index \<open>i\<close> is
  slope * x + u * noise * 10 + 10 with slope = sign * target, noise = 1.7 - 1.5 * target
  and u the draw at that index minus 0.5, which lies between -0.5 and 0.5.
\<close>

theorem generateLinear_points:
  assumes "\<forall>i<20. 0 \<le> random i \<and> random i < 1"
  shows "length (randomLinearWithCorrelation target sign now random) = 20
   \<and> map p_x (randomLinearWithCorrelation target sign now random) = map real [1..<21]
   \<and> (\<forall>i<20. p_x (randomLinearWithCorrelation target sign now random ! i) = real (i + 1)
        \<and> p_y (randomLinearWithCorrelation target sign now random ! i) =
            (sign * target) * real (i + 1)
              + (random i - 0.5) * (1.7 - 1.5 * target) * 10 + 10
        \<and> - 0.5 \<le> random i - 0.5 \<and> random i - 0.5 < 0.5)"
proof (intro conjI allI impI)
  show "length (randomLinearWithCorrelation target sign now random) = 20"
    by (simp add: randomLinearWithCorrelation_def randomLinear_length)
  have "map p_x (randomLinear slope noise now random) = map (\<lambda>i. real i + 1) [0..<20]"
    for slope noise
    by (simp add: randomLinear_def Let_def comp_def)
  also have "map (\<lambda>i. real i + 1) [0..<20] = map real (map Suc [0..<20])"
    by (simp add: comp_def add.commute)
  also have "map Suc [0..<20] = [1..<21]"
    by (simp only: map_Suc_upt) simp
  finally show "map p_x (randomLinearWithCorrelation target sign now random) = map real [1..<21]"
    by (simp add: randomLinearWithCorrelation_def)
  fix i :: nat assume i: "i < 20"
  show "p_x (randomLinearWithCorrelation target sign now random ! i) = real (i + 1)"
    using i by (simp add: randomLinearWithCorrelation_def randomLinear_nth)
  show "p_y (randomLinearWithCorrelation target sign now random ! i) =
            (sign * target) * real (i + 1)
              + (random i - 0.5) * (1.7 - 1.5 * target) * 10 + 10"
    using i by (simp add: randomLinearWithCorrelation_def randomLinear_nth algebra_simps)
  show "- 0.5 \<le> random i - 0.5" "random i - 0.5 < 0.5"
    using i assms by auto
qed

text \<open>
  C4 at target 1 and sign -1 with every draw equal to 1/4: the last point is
  (20, -21/2).
\<close>

theorem generateLinear_points_witness:
  "length (randomLinearWithCorrelation 1 (- 1) frozen_clock draws_low) = 20
   \<and> p_x (randomLinearWithCorrelation 1 (- 1) frozen_clock draws_low ! 19) = 20
   \<and> p_y (randomLinearWithCorrelation 1 (- 1) frozen_clock draws_low ! 19) = - 21 / 2"
proof -
  have h: "\<forall>i<20. 0 \<le> draws_low i \<and> draws_low i < 1"
    by (simp add: draws_low_def)
  have i: "(19::nat) < 20" by simp
  from generateLinear_points [OF h, of 1 "- 1" frozen_clock] i
  have "length (randomLinearWithCorrelation 1 (- 1) frozen_clock draws_low) = 20"
    and "p_x (randomLinearWithCorrelation 1 (- 1) frozen_clock draws_low ! 19) = real (19 + 1)"
    and "p_y (randomLinearWithCorrelation 1 (- 1) frozen_clock draws_low ! 19) =
            (- 1 * 1) * real (19 + 1) + (draws_low 19 - 0.5) * (1.7 - 1.5 * 1) * 10 + 10"
    by blast+
  then show ?thesis by (simp add: draws_low_def)
qed

lemma generated_ids:
  "map p_id (randomLinearWithCorrelation r sign now random) =
     map (\<lambda>i. dec (now i) @ ''-'' @ dec i) [0..<20]"
  by (simp add: randomLinearWithCorrelation_def randomLinear_ids)

text \<open>
  Claim C9, amended. The ids of one generated dataset are pairwise distinct, and two
  generated datasets share no id when the clock readings of the two generations differ
  at every index.
\<close>

theorem generated_ids_unique:
  "distinct (map p_id (randomLinearWithCorrelation r sign now random))
   \<and> ((\<forall>i<20. now i \<noteq> now' i) \<longrightarrow>
        set (map p_id (randomLinearWithCorrelation r sign now random))
          \<inter> set (map p_id (randomLinearWithCorrelation r' sign' now' random')) = {})"
proof (intro conjI impI)
  have "inj_on (\<lambda>i. dec (now i) @ ''-'' @ dec i) (set [0..<20])"
    by (rule inj_onI) (simp only: id_eq_iff)
  then show "distinct (map p_id (randomLinearWithCorrelation r sign now random))"
    by (simp only: generated_ids distinct_map distinct_upt)
  assume "\<forall>i<20. now i \<noteq> now' i"
  then show "set (map p_id (randomLinearWithCorrelation r sign now random))
          \<inter> set (map p_id (randomLinearWithCorrelation r' sign' now' random')) = {}"
    by (auto simp add: generated_ids id_eq_iff simp del: append.simps)
qed

text \<open>
  C9 as amended, for two generations one millisecond apart.
\<close>

theorem generated_ids_unique_witness:
  "distinct (map p_id (randomLinearWithCorrelation (4 / 5) 1 frozen_clock draws_low))
   \<and> set (map p_id (randomLinearWithCorrelation (4 / 5) 1 frozen_clock draws_low))
        \<inter> set (map p_id (randomLinearWithCorrelation (4 / 5) 1 later_clock draws_high)) = {}"
  using generated_ids_unique [of "4 / 5" 1 frozen_clock draws_low later_clock "4 / 5" 1 draws_high]
  by (simp add: frozen_clock_def later_clock_def)

text \<open>
  Claim C9 as written fails: two generations that read the same millisecond from the
  clock give their first points the same id, although the datasets differ.
\<close>

theorem generated_ids_collide:
  "p_id (randomLinearWithCorrelation (4 / 5) 1 frozen_clock draws_low ! 0) = ''1700000000000-0''
   \<and> p_id (randomLinearWithCorrelation (4 / 5) 1 frozen_clock draws_high ! 0) = ''1700000000000-0''
   \<and> p_y (randomLinearWithCorrelation (4 / 5) 1 frozen_clock draws_low ! 0) = 191 / 20
   \<and> p_y (randomLinearWithCorrelation (4 / 5) 1 frozen_clock draws_high ! 0) = 241 / 20"
  by (simp add: randomLinearWithCorrelation_def randomLinear_nth frozen_clock_def
      draws_low_def draws_high_def dec.simps digit_def)

section \<open>Properties of the Anscombe datasets\<close>

lemma correlation_between:
  assumes len: "\<not> length ps < 2"
    and c: "sum_dxdy ps = c" and a: "sum_dx2 ps = a" and d: "sum_dy2 ps = d"
    and pos: "0 < c" "0 < a * d" "0 \<le> lo" "0 \<le> hi"
    and lo: "lo * lo * (a * d) < c * c" and hi: "c * c < hi * hi * (a * d)"
  shows "\<exists>r. correlation ps = Inr r \<and> lo < r \<and> r < hi"
proof -
  define s where "s = sqrt (a * d)"
  have s: "0 < s" unfolding s_def using pos(2) by (simp only: real_sqrt_gt_0_iff)
  have "s\<^sup>2 = a * d" unfolding s_def using pos(2) by (simp only: real_sqrt_pow2 less_imp_le)
  then have ss: "s * s = a * d" by (simp only: power2_eq_square)
  have "(lo * s) * (lo * s) = lo * lo * (s * s)" by (simp only: mult_ac)
  with lo have "(lo * s)\<^sup>2 < c\<^sup>2" by (simp only: ss power2_eq_square)
  moreover have "0 \<le> c" using pos(1) by (rule less_imp_le)
  ultimately have "lo * s < c" by (rule power2_less_imp_less)
  with s have l: "lo < c / s" by (simp only: pos_less_divide_eq)
  have "(hi * s) * (hi * s) = hi * hi * (s * s)" by (simp only: mult_ac)
  with hi have "c\<^sup>2 < (hi * s)\<^sup>2" by (simp only: ss power2_eq_square)
  moreover have "0 \<le> hi * s" using pos(4) s by (simp only: mult_nonneg_nonneg less_imp_le)
  ultimately have "c < hi * s" by (rule power2_less_imp_less)
  with s have h: "c / s < hi" by (simp only: pos_divide_less_eq)
  from pos(2) have nz: "sum_dx2 ps * sum_dy2 ps \<noteq> 0" by (simp only: a d)
  have "correlation ps = Inr (sum_dxdy ps / sqrt (sum_dx2 ps * sum_dy2 ps))"
    unfolding correlation_unfold using len nz by (simp only: if_False simp_thms)
  then have "correlation ps = Inr (c / s)" by (simp only: c a d s_def)
  with l h show ?thesis by blast
qed

lemma sums_A:
  fixes ps :: "point list"
  assumes "ps =
     [\<lparr>p_id = ''A-0'', p_x = 10, p_y = 8.04\<rparr>, \<lparr>p_id = ''A-1'', p_x = 8, p_y = 6.95\<rparr>,
      \<lparr>p_id = ''A-2'', p_x = 13, p_y = 7.58\<rparr>, \<lparr>p_id = ''A-3'', p_x = 9, p_y = 8.81\<rparr>,
      \<lparr>p_id = ''A-4'', p_x = 11, p_y = 8.33\<rparr>, \<lparr>p_id = ''A-5'', p_x = 14, p_y = 9.96\<rparr>,
      \<lparr>p_id = ''A-6'', p_x = 6, p_y = 7.24\<rparr>, \<lparr>p_id = ''A-7'', p_x = 4, p_y = 4.26\<rparr>,
      \<lparr>p_id = ''A-8'', p_x = 12, p_y = 10.84\<rparr>, \<lparr>p_id = ''A-9'', p_x = 7, p_y = 4.82\<rparr>,
      \<lparr>p_id = ''A-10'', p_x = 5, p_y = 5.68\<rparr>]"
  shows "length ps = 11" and "sum_dxdy ps = 5501 / 100" and "sum_dx2 ps = 110" and "sum_dy2 ps = 1134999 / 27500"
proof -
  have mx: "meanX ps = 9" and my: "meanY ps = 8251 / 1100"
    unfolding assms by (simp_all add: meanX_def meanY_def)
  show "length ps = 11" unfolding assms by simp
  show "sum_dxdy ps = 5501 / 100"
    unfolding sum_dxdy_def mx my unfolding assms by simp
  show "sum_dx2 ps = 110"
    unfolding sum_dx2_def mx unfolding assms by simp
  show "sum_dy2 ps = 1134999 / 27500"
    unfolding sum_dy2_def my unfolding assms by simp
qed

lemma sums_B:
  fixes ps :: "point list"
  assumes "ps =
     [\<lparr>p_id = ''B-0'', p_x = 10, p_y = 9.14\<rparr>, \<lparr>p_id = ''B-1'', p_x = 8, p_y = 8.14\<rparr>,
      \<lparr>p_id = ''B-2'', p_x = 13, p_y = 8.74\<rparr>, \<lparr>p_id = ''B-3'', p_x = 9, p_y = 8.77\<rparr>,
      \<lparr>p_id = ''B-4'', p_x = 11, p_y = 9.26\<rparr>, \<lparr>p_id = ''B-5'', p_x = 14, p_y = 8.1\<rparr>,
      \<lparr>p_id = ''B-6'', p_x = 6, p_y = 6.13\<rparr>, \<lparr>p_id = ''B-7'', p_x = 4, p_y = 3.1\<rparr>,
      \<lparr>p_id = ''B-8'', p_x = 12, p_y = 9.13\<rparr>, \<lparr>p_id = ''B-9'', p_x = 7, p_y = 7.26\<rparr>,
      \<lparr>p_id = ''B-10'', p_x = 5, p_y = 4.74\<rparr>]"
  shows "length ps = 11" and "sum_dxdy ps = 55" and "sum_dx2 ps = 110" and "sum_dy2 ps = 567549 / 13750"
proof -
  have mx: "meanX ps = 9" and my: "meanY ps = 8251 / 1100"
    unfolding assms by (simp_all add: meanX_def meanY_def)
  show "length ps = 11" unfolding assms by simp
  show "sum_dxdy ps = 55"
    unfolding sum_dxdy_def mx my unfolding assms by simp
  show "sum_dx2 ps = 110"
    unfolding sum_dx2_def mx unfolding assms by simp
  show "sum_dy2 ps = 567549 / 13750"
    unfolding sum_dy2_def my unfolding assms by simp
qed

lemma sums_C:
  fixes ps :: "point list"
  assumes "ps =
     [\<lparr>p_id = ''C-0'', p_x = 10, p_y = 7.46\<rparr>, \<lparr>p_id = ''C-1'', p_x = 8, p_y = 6.77\<rparr>,
      \<lparr>p_id = ''C-2'', p_x = 13, p_y = 12.74\<rparr>, \<lparr>p_id = ''C-3'', p_x = 9, p_y = 7.11\<rparr>,
      \<lparr>p_id = ''C-4'', p_x = 11, p_y = 7.81\<rparr>, \<lparr>p_id = ''C-5'', p_x = 14, p_y = 8.84\<rparr>,
      \<lparr>p_id = ''C-6'', p_x = 6, p_y = 6.08\<rparr>, \<lparr>p_id = ''C-7'', p_x = 4, p_y = 5.39\<rparr>,
      \<lparr>p_id = ''C-8'', p_x = 12, p_y = 8.15\<rparr>, \<lparr>p_id = ''C-9'', p_x = 7, p_y = 6.42\<rparr>,
      \<lparr>p_id = ''C-10'', p_x = 5, p_y = 5.73\<rparr>]"
  shows "length ps = 11" and "sum_dxdy ps = 5497 / 100" and "sum_dx2 ps = 110" and "sum_dy2 ps = 206131 / 5000"
proof -
  have mx: "meanX ps = 9" and my: "meanY ps = 15 / 2"
    unfolding assms by (simp_all add: meanX_def meanY_def)
  show "length ps = 11" unfolding assms by simp
  show "sum_dxdy ps = 5497 / 100"
    unfolding sum_dxdy_def mx my unfolding assms by simp
  show "sum_dx2 ps = 110"
    unfolding sum_dx2_def mx unfolding assms by simp
  show "sum_dy2 ps = 206131 / 5000"
    unfolding sum_dy2_def my unfolding assms by simp
qed

lemma sums_D:
  fixes ps :: "point list"
  assumes "ps =
     [\<lparr>p_id = ''D-0'', p_x = 8, p_y = 6.58\<rparr>, \<lparr>p_id = ''D-1'', p_x = 8, p_y = 5.76\<rparr>,
      \<lparr>p_id = ''D-2'', p_x = 8, p_y = 7.71\<rparr>, \<lparr>p_id = ''D-3'', p_x = 8, p_y = 8.84\<rparr>,
      \<lparr>p_id = ''D-4'', p_x = 8, p_y = 8.47\<rparr>, \<lparr>p_id = ''D-5'', p_x = 8, p_y = 7.04\<rparr>,
      \<lparr>p_id = ''D-6'', p_x = 8, p_y = 5.25\<rparr>, \<lparr>p_id = ''D-7'', p_x = 19, p_y = 12.5\<rparr>,
      \<lparr>p_id = ''D-8'', p_x = 8, p_y = 5.56\<rparr>, \<lparr>p_id = ''D-9'', p_x = 8, p_y = 7.91\<rparr>,
      \<lparr>p_id = ''D-10'', p_x = 8, p_y = 6.89\<rparr>]"
  shows "length ps = 11" and "sum_dxdy ps = 5499 / 100" and "sum_dx2 ps = 110" and "sum_dy2 ps = 2267787 / 55000"
proof -
  have mx: "meanX ps = 9" and my: "meanY ps = 8251 / 1100"
    unfolding assms by (simp_all add: meanX_def meanY_def)
  show "length ps = 11" unfolding assms by simp
  show "sum_dxdy ps = 5499 / 100"
    unfolding sum_dxdy_def mx my unfolding assms by simp
  show "sum_dx2 ps = 110"
    unfolding sum_dx2_def mx unfolding assms by simp
  show "sum_dy2 ps = 2267787 / 55000"
    unfolding sum_dy2_def my unfolding assms by simp
qed

lemma anscombe_keys: "map fst anscombe = [''A'', ''B'', ''C'', ''D'']"
  by (simp add: anscombe_def anscombe_literal_def)

lemma dec_small:
  "dec 0 = ''0''" "dec (Suc 0) = ''1''" "dec 2 = ''2''" "dec 3 = ''3''" "dec 4 = ''4''" "dec 5 = ''5''"
  "dec 6 = ''6''" "dec 7 = ''7''" "dec 8 = ''8''" "dec 9 = ''9''" "dec 10 = ''10''"
  by (simp_all add: dec.simps digit_def)

lemma enumerate_11:
  "enumerate 0 [a0, a1, a2, a3, a4, a5, a6, a7, a8, a9, a10] =
     [(0, a0), (1, a1), (2, a2), (3, a3), (4, a4), (5, a5), (6, a6), (7, a7), (8, a8),
      (9, a9), (10, a10)]"
  by (simp add: enumerate_eq_zip upt_rec)

lemma anscombe_value_A:
  "map_of anscombe ''A'' = Some
     [\<lparr>p_id = ''A-0'', p_x = 10, p_y = 8.04\<rparr>, \<lparr>p_id = ''A-1'', p_x = 8, p_y = 6.95\<rparr>,
      \<lparr>p_id = ''A-2'', p_x = 13, p_y = 7.58\<rparr>, \<lparr>p_id = ''A-3'', p_x = 9, p_y = 8.81\<rparr>,
      \<lparr>p_id = ''A-4'', p_x = 11, p_y = 8.33\<rparr>, \<lparr>p_id = ''A-5'', p_x = 14, p_y = 9.96\<rparr>,
      \<lparr>p_id = ''A-6'', p_x = 6, p_y = 7.24\<rparr>, \<lparr>p_id = ''A-7'', p_x = 4, p_y = 4.26\<rparr>,
      \<lparr>p_id = ''A-8'', p_x = 12, p_y = 10.84\<rparr>, \<lparr>p_id = ''A-9'', p_x = 7, p_y = 4.82\<rparr>,
      \<lparr>p_id = ''A-10'', p_x = 5, p_y = 5.68\<rparr>]"
  by (simp add: anscombe_def anscombe_literal_def stamp_def enumerate_11 dec_small del: enumerate_simps)

lemma anscombe_value_B:
  "map_of anscombe ''B'' = Some
     [\<lparr>p_id = ''B-0'', p_x = 10, p_y = 9.14\<rparr>, \<lparr>p_id = ''B-1'', p_x = 8, p_y = 8.14\<rparr>,
      \<lparr>p_id = ''B-2'', p_x = 13, p_y = 8.74\<rparr>, \<lparr>p_id = ''B-3'', p_x = 9, p_y = 8.77\<rparr>,
      \<lparr>p_id = ''B-4'', p_x = 11, p_y = 9.26\<rparr>, \<lparr>p_id = ''B-5'', p_x = 14, p_y = 8.1\<rparr>,
      \<lparr>p_id = ''B-6'', p_x = 6, p_y = 6.13\<rparr>, \<lparr>p_id = ''B-7'', p_x = 4, p_y = 3.1\<rparr>,
      \<lparr>p_id = ''B-8'', p_x = 12, p_y = 9.13\<rparr>, \<lparr>p_id = ''B-9'', p_x = 7, p_y = 7.26\<rparr>,
      \<lparr>p_id = ''B-10'', p_x = 5, p_y = 4.74\<rparr>]"
  by (simp add: anscombe_def anscombe_literal_def stamp_def enumerate_11 dec_small del: enumerate_simps)

lemma anscombe_value_C:
  "map_of anscombe ''C'' = Some
     [\<lparr>p_id = ''C-0'', p_x = 10, p_y = 7.46\<rparr>, \<lparr>p_id = ''C-1'', p_x = 8, p_y = 6.77\<rparr>,
      \<lparr>p_id = ''C-2'', p_x = 13, p_y = 12.74\<rparr>, \<lparr>p_id = ''C-3'', p_x = 9, p_y = 7.11\<rparr>,
      \<lparr>p_id = ''C-4'', p_x = 11, p_y = 7.81\<rparr>, \<lparr>p_id = ''C-5'', p_x = 14, p_y = 8.84\<rparr>,
      \<lparr>p_id = ''C-6'', p_x = 6, p_y = 6.08\<rparr>, \<lparr>p_id = ''C-7'', p_x = 4, p_y = 5.39\<rparr>,
      \<lparr>p_id = ''C-8'', p_x = 12, p_y = 8.15\<rparr>, \<lparr>p_id = ''C-9'', p_x = 7, p_y = 6.42\<rparr>,
      \<lparr>p_id = ''C-10'', p_x = 5, p_y = 5.73\<rparr>]"
  by (simp add: anscombe_def anscombe_literal_def stamp_def enumerate_11 dec_small del: enumerate_simps)

lemma anscombe_value_D:
  "map_of anscombe ''D'' = Some
     [\<lparr>p_id = ''D-0'', p_x = 8, p_y = 6.58\<rparr>, \<lparr>p_id = ''D-1'', p_x = 8, p_y = 5.76\<rparr>,
      \<lparr>p_id = ''D-2'', p_x = 8, p_y = 7.71\<rparr>, \<lparr>p_id = ''D-3'', p_x = 8, p_y = 8.84\<rparr>,
      \<lparr>p_id = ''D-4'', p_x = 8, p_y = 8.47\<rparr>, \<lparr>p_id = ''D-5'', p_x = 8, p_y = 7.04\<rparr>,
      \<lparr>p_id = ''D-6'', p_x = 8, p_y = 5.25\<rparr>, \<lparr>p_id = ''D-7'', p_x = 19, p_y = 12.5\<rparr>,
      \<lparr>p_id = ''D-8'', p_x = 8, p_y = 5.56\<rparr>, \<lparr>p_id = ''D-9'', p_x = 8, p_y = 7.91\<rparr>,
      \<lparr>p_id = ''D-10'', p_x = 8, p_y = 6.89\<rparr>]"
  by (simp add: anscombe_def anscombe_literal_def stamp_def enumerate_11 dec_small del: enumerate_simps)

lemma reference_correlation:
  assumes "map_of anscombe k = Some ps"
    and "length ps = 11" and "sum_dxdy ps = c" and "sum_dx2 ps = a" and "sum_dy2 ps = d"
    and "0 < c" and "0 < a * d" and "0 \<le> lo" and "0 \<le> hi"
    and "lo * lo * (a * d) < c * c" and "c * c < hi * hi * (a * d)"
  shows "\<exists>ps r. map_of anscombe k = Some ps \<and> length ps = 11
        \<and> correlation ps = Inr r \<and> lo < r \<and> r < hi"
proof -
  from assms(2) have "\<not> length ps < 2" by simp
  then have "\<exists>r. correlation ps = Inr r \<and> lo < r \<and> r < hi"
    using assms(3-11) by (rule correlation_between)
  with assms(1,2) show ?thesis by blast
qed

text \<open>
  Claim C5. The object \<open>anscombe\<close> has the four keys A, B, C and D; the dataset under
  each key has 11 points; and \<open>correlation\<close> on each of the four lies strictly between
  0.816 and 0.8166, so that any two of the four values differ by less than 0.0006.
\<close>

theorem anscombe_correlations:
  "map fst anscombe = [''A'', ''B'', ''C'', ''D'']
   \<and> (\<exists>ps r. map_of anscombe ''A'' = Some ps \<and> length ps = 11
        \<and> correlation ps = Inr r \<and> 0.816 < r \<and> r < 0.8166)
   \<and> (\<exists>ps r. map_of anscombe ''B'' = Some ps \<and> length ps = 11
        \<and> correlation ps = Inr r \<and> 0.816 < r \<and> r < 0.8166)
   \<and> (\<exists>ps r. map_of anscombe ''C'' = Some ps \<and> length ps = 11
        \<and> correlation ps = Inr r \<and> 0.816 < r \<and> r < 0.8166)
   \<and> (\<exists>ps r. map_of anscombe ''D'' = Some ps \<and> length ps = 11
        \<and> correlation ps = Inr r \<and> 0.816 < r \<and> r < 0.8166)"
proof (intro conjI)
  show "map fst anscombe = [''A'', ''B'', ''C'', ''D'']"
    by (rule anscombe_keys)
  show "\<exists>ps r. map_of anscombe ''A'' = Some ps \<and> length ps = 11
        \<and> correlation ps = Inr r \<and> 0.816 < r \<and> r < 0.8166"
    by (rule reference_correlation [OF anscombe_value_A sums_A(1) [OF refl] sums_A(2) [OF refl]
          sums_A(3) [OF refl] sums_A(4) [OF refl]]) simp_all
  show "\<exists>ps r. map_of anscombe ''B'' = Some ps \<and> length ps = 11
        \<and> correlation ps = Inr r \<and> 0.816 < r \<and> r < 0.8166"
    by (rule reference_correlation [OF anscombe_value_B sums_B(1) [OF refl] sums_B(2) [OF refl]
          sums_B(3) [OF refl] sums_B(4) [OF refl]]) simp_all
  show "\<exists>ps r. map_of anscombe ''C'' = Some ps \<and> length ps = 11
        \<and> correlation ps = Inr r \<and> 0.816 < r \<and> r < 0.8166"
    by (rule reference_correlation [OF anscombe_value_C sums_C(1) [OF refl] sums_C(2) [OF refl]
          sums_C(3) [OF refl] sums_C(4) [OF refl]]) simp_all
  show "\<exists>ps r. map_of anscombe ''D'' = Some ps \<and> length ps = 11
        \<and> correlation ps = Inr r \<and> 0.816 < r \<and> r < 0.8166"
    by (rule reference_correlation [OF anscombe_value_D sums_D(1) [OF refl] sums_D(2) [OF refl]
          sums_D(3) [OF refl] sums_D(4) [OF refl]]) simp_all
qed

section \<open>Properties of the controller\<close>

lemma isLinear_keys:
  "isLinear ''Lineare positiva''" "isLinear ''Lineare negativa''"
  "isLinear ''Nessuna correlazione''"
  "\<not> isLinear ''Anscombe A''" "\<not> isLinear ''Anscombe B''"
  "\<not> isLinear ''Anscombe C''" "\<not> isLinear ''Anscombe D''"
  by (simp_all add: isLinear_def)

lemma anscombe_lookup_keys:
  "anscombe_lookup ''Anscombe A'' = map_of anscombe ''A''"
  "anscombe_lookup ''Anscombe B'' = map_of anscombe ''B''"
  "anscombe_lookup ''Anscombe C'' = map_of anscombe ''C''"
  "anscombe_lookup ''Anscombe D'' = map_of anscombe ''D''"
  by (simp_all add: anscombe_lookup_def nth_opt_def)

lemma effect_is_regenerate:
  "effect_points key cv now random = regenerate_points key cv now random"
  by (simp add: effect_points_def regenerate_points_def)

lemma regenerate_points_reference:
  "\<not> isLinear key \<Longrightarrow> regenerate_points key cv now random = anscombe_lookup key"
  by (simp add: regenerate_points_def)

text \<open>
  Claim C6. A regenerate request sets the points to what the generation path of the
  active preset yields, and leaves the preset as it is; a change of preset makes the new
  key the active one and sets the points to what its generation path yields; the effect
  and \<open>regenerate\<close> follow the same path. That path is: the positive linear preset
  generates with sign 1 and the current target, the negative one with sign -1 and the
  current target, the preset without correlation with sign 1 and target 0 whatever the
  current target is, and each Anscombe preset loads the dataset under its letter.
  Regenerating after a reference preset was loaded gives the points of that load
  again, also when a point was dragged in between.
\<close>

theorem preset_generation_paths:
  "points (regenerate now random s) =
      regenerate_points (presetKey s) (correlationValue s) now random
   \<and> presetKey (regenerate now random s) = presetKey s
   \<and> (key \<noteq> presetKey s \<longrightarrow>
        presetKey (setPresetKey key now random s) = key
        \<and> points (setPresetKey key now random s) =
            effect_points key (correlationValue s) now random)
   \<and> effect_points key cv now random = regenerate_points key cv now random
   \<and> regenerate_points ''Lineare positiva'' cv now random =
        Some (randomLinearWithCorrelation cv 1 now random)
   \<and> regenerate_points ''Lineare negativa'' cv now random =
        Some (randomLinearWithCorrelation cv (- 1) now random)
   \<and> regenerate_points ''Nessuna correlazione'' cv now random =
        Some (randomLinearWithCorrelation 0 1 now random)
   \<and> regenerate_points ''Anscombe A'' cv now random = map_of anscombe ''A''
   \<and> regenerate_points ''Anscombe B'' cv now random = map_of anscombe ''B''
   \<and> regenerate_points ''Anscombe C'' cv now random = map_of anscombe ''C''
   \<and> regenerate_points ''Anscombe D'' cv now random = map_of anscombe ''D''
   \<and> (key \<noteq> presetKey s \<and> \<not> isLinear key \<longrightarrow>
        points (regenerate now' random' (setPresetKey key now random s)) =
          points (setPresetKey key now random s)
        \<and> points (regenerate now' random'
             (setPoints_drag payload_id xVal yVal (setPresetKey key now random s))) =
          points (setPresetKey key now random s))"
proof (intro conjI impI)
  show "points (regenerate now random s) =
      regenerate_points (presetKey s) (correlationValue s) now random"
    by (simp add: regenerate_def)
  show "presetKey (regenerate now random s) = presetKey s"
    by (simp add: regenerate_def)
  show "presetKey (setPresetKey key now random s) = key" if "key \<noteq> presetKey s"
    using that by (simp add: setPresetKey_def)
  show "points (setPresetKey key now random s) =
      effect_points key (correlationValue s) now random" if "key \<noteq> presetKey s"
    using that by (simp add: setPresetKey_def)
  show "effect_points key cv now random = regenerate_points key cv now random"
    by (rule effect_is_regenerate)
  show "regenerate_points ''Lineare positiva'' cv now random =
        Some (randomLinearWithCorrelation cv 1 now random)"
    by (simp add: regenerate_points_def isLinear_def)
  show "regenerate_points ''Lineare negativa'' cv now random =
        Some (randomLinearWithCorrelation cv (- 1) now random)"
    by (simp add: regenerate_points_def isLinear_def)
  show "regenerate_points ''Nessuna correlazione'' cv now random =
        Some (randomLinearWithCorrelation 0 1 now random)"
    by (simp add: regenerate_points_def isLinear_def)
  show "regenerate_points ''Anscombe A'' cv now random = map_of anscombe ''A''"
    by (simp only: regenerate_points_reference [OF isLinear_keys(4)] anscombe_lookup_keys)
  show "regenerate_points ''Anscombe B'' cv now random = map_of anscombe ''B''"
    by (simp only: regenerate_points_reference [OF isLinear_keys(5)] anscombe_lookup_keys)
  show "regenerate_points ''Anscombe C'' cv now random = map_of anscombe ''C''"
    by (simp only: regenerate_points_reference [OF isLinear_keys(6)] anscombe_lookup_keys)
  show "regenerate_points ''Anscombe D'' cv now random = map_of anscombe ''D''"
    by (simp only: regenerate_points_reference [OF isLinear_keys(7)] anscombe_lookup_keys)
  show "points (regenerate now' random' (setPresetKey key now random s)) =
          points (setPresetKey key now random s)"
    if "key \<noteq> presetKey s \<and> \<not> isLinear key"
    using that
    by (simp add: regenerate_def setPresetKey_def effect_is_regenerate regenerate_points_reference)
  show "points (regenerate now' random'
             (setPoints_drag payload_id xVal yVal (setPresetKey key now random s))) =
          points (setPresetKey key now random s)"
    if "key \<noteq> presetKey s \<and> \<not> isLinear key"
    using that
    by (simp add: regenerate_def setPresetKey_def setPoints_drag_def effect_is_regenerate
        regenerate_points_reference)
qed

text \<open>
  C6 from the initial state: selecting Anscombe B loads that dataset, and after a drag
  a regenerate request loads it again.
\<close>

theorem preset_generation_paths_witness:
  "''Anscombe B'' \<noteq> presetKey (init_state frozen_clock draws_low)
   \<and> \<not> isLinear ''Anscombe B''
   \<and> presetKey (setPresetKey ''Anscombe B'' frozen_clock draws_low
         (init_state frozen_clock draws_low)) = ''Anscombe B''
   \<and> points (setPresetKey ''Anscombe B'' frozen_clock draws_low
         (init_state frozen_clock draws_low)) = map_of anscombe ''B''
   \<and> points (regenerate later_clock draws_high
         (setPoints_drag ''B-7'' 3 4
            (setPresetKey ''Anscombe B'' frozen_clock draws_low
               (init_state frozen_clock draws_low)))) = map_of anscombe ''B''"
proof -
  have h: "''Anscombe B'' \<noteq> presetKey (init_state frozen_clock draws_low)"
    by (simp add: init_state_def)
  note t = preset_generation_paths [of frozen_clock draws_low "init_state frozen_clock draws_low"
      "''Anscombe B''" "correlationValue (init_state frozen_clock draws_low)"
      later_clock draws_high "''B-7''" 3 4]
  from t h isLinear_keys(5) show ?thesis
    by (simp add: effect_is_regenerate)
qed

lemma handle_keeps_target:
  "\<not> sets_target e \<Longrightarrow> correlationValue (handle s e) = correlationValue s"
  by (cases e) (simp_all add: setPresetKey_def regenerate_def setPoints_drag_def)

lemma run_keeps_target:
  "\<forall>e\<in>set evs. \<not> sets_target e \<Longrightarrow> correlationValue (run s evs) = correlationValue s"
  unfolding run_def
  by (induction evs arbitrary: s) (simp_all add: handle_keeps_target)

text \<open>
  Claim C10. The target starts at 0.8. Mounting, selecting a preset, regenerating and
  dragging leave it as it is; setting the target stores the new value. So after any
  sequence of events in which the target is not set, the stored target is the one
  before the sequence, and a change of preset after the sequence generates the dataset
  from that target.
\<close>

theorem correlationValue_frame:
  "correlationValue (init_state now random) = 0.8
   \<and> correlationValue (mount now random s) = correlationValue s
   \<and> correlationValue (setPresetKey key now random s) = correlationValue s
   \<and> correlationValue (regenerate now random s) = correlationValue s
   \<and> correlationValue (setPoints_drag payload_id xVal yVal s) = correlationValue s
   \<and> correlationValue (setCorrelationValue v now random s) = v
   \<and> ((\<forall>e\<in>set evs. \<not> sets_target e) \<longrightarrow>
        correlationValue (run s evs) = correlationValue s)
   \<and> ((\<forall>e\<in>set evs. \<not> sets_target e) \<and> key \<noteq> presetKey (run s evs) \<longrightarrow>
        points (setPresetKey key now random (run s evs)) =
          effect_points key (correlationValue s) now random)"
proof (intro conjI impI)
  show "correlationValue (init_state now random) = 0.8"
    by (simp add: init_state_def)
  show "correlationValue (mount now random s) = correlationValue s"
    by (simp add: mount_def)
  show "correlationValue (setPresetKey key now random s) = correlationValue s"
    by (simp add: setPresetKey_def)
  show "correlationValue (regenerate now random s) = correlationValue s"
    by (simp add: regenerate_def)
  show "correlationValue (setPoints_drag payload_id xVal yVal s) = correlationValue s"
    by (simp add: setPoints_drag_def)
  show "correlationValue (setCorrelationValue v now random s) = v"
    by (simp add: setCorrelationValue_def)
  show "correlationValue (run s evs) = correlationValue s" if "\<forall>e\<in>set evs. \<not> sets_target e"
    using that by (rule run_keeps_target)
  show "points (setPresetKey key now random (run s evs)) =
          effect_points key (correlationValue s) now random"
    if "(\<forall>e\<in>set evs. \<not> sets_target e) \<and> key \<noteq> presetKey (run s evs)"
    using that by (simp add: setPresetKey_def run_keeps_target)
qed

lemma presetKey_after:
  "presetKey (run (setCorrelationValue (1 / 2) frozen_clock draws_low
        (mount frozen_clock draws_low (init_state frozen_clock draws_low)))
      [SelectPreset ''Anscombe C'' frozen_clock draws_low, DragPoint ''C-2'' 13 8,
       RequestRegenerate later_clock draws_low]) = ''Anscombe C''"
  by (simp add: run_def setPresetKey_def regenerate_def setPoints_drag_def
      setCorrelationValue_def mount_def init_state_def)

text \<open>
  C10: the target is set to 1/2 under the positive linear preset; Anscombe C is
  selected, a point is dragged, the data are regenerated; selecting the negative linear
  preset then generates with target 1/2 and sign -1.
\<close>

theorem correlationValue_frame_witness:
  "''Lineare negativa'' \<noteq> presetKey (run (setCorrelationValue (1 / 2) frozen_clock draws_low
        (mount frozen_clock draws_low (init_state frozen_clock draws_low)))
      [SelectPreset ''Anscombe C'' frozen_clock draws_low, DragPoint ''C-2'' 13 8,
       RequestRegenerate later_clock draws_low])
   \<and> points (setPresetKey ''Lineare negativa'' later_clock draws_high
       (run (setCorrelationValue (1 / 2) frozen_clock draws_low
          (mount frozen_clock draws_low (init_state frozen_clock draws_low)))
        [SelectPreset ''Anscombe C'' frozen_clock draws_low, DragPoint ''C-2'' 13 8,
         RequestRegenerate later_clock draws_low])) =
      Some (randomLinearWithCorrelation (1 / 2) (- 1) later_clock draws_high)"
proof -
  let ?s = "setCorrelationValue (1 / 2) frozen_clock draws_low
        (mount frozen_clock draws_low (init_state frozen_clock draws_low))"
  let ?evs = "[SelectPreset ''Anscombe C'' frozen_clock draws_low, DragPoint ''C-2'' 13 8,
       RequestRegenerate later_clock draws_low]"
  have a: "\<forall>e\<in>set ?evs. \<not> sets_target e" by simp
  have b: "''Lineare negativa'' \<noteq> presetKey (run ?s ?evs)"
    by (simp only: presetKey_after) simp
  have c: "correlationValue ?s = 1 / 2"
    by (simp add: setCorrelationValue_def mount_def init_state_def)
  from correlationValue_frame [of later_clock draws_high ?s "''Lineare negativa''" "''x''" 0 0 0 ?evs] a b
  have "points (setPresetKey ''Lineare negativa'' later_clock draws_high (run ?s ?evs)) =
      effect_points ''Lineare negativa'' (correlationValue ?s) later_clock draws_high"
    by blast
  then have "points (setPresetKey ''Lineare negativa'' later_clock draws_high (run ?s ?evs)) =
      Some (randomLinearWithCorrelation (1 / 2) (- 1) later_clock draws_high)"
    by (simp only: c) (simp add: effect_points_def isLinear_def)
  with b show ?thesis by blast
qed

end
